theory Spec2Isabelle
  imports Complex_Main "HOL-Library.AList"
begin

section \<open>Python values, dictionaries and exceptions\<close>

text \<open>
  The request body and the graph state of \<^verbatim>\<open>server/app.py\<close> are Python values decoded
  from JSON. A dictionary is kept as the list of its items in insertion order (keys
  distinct); a number is a real, which covers Python's \<^verbatim>\<open>int\<close> and the finite
  \<^verbatim>\<open>float\<close>s.
\<close>

datatype json =
    JNull
  | JBool bool
  | JNum real
  | JStr string
  | JArr "json list"
  | JObj "(string \<times> json) list"

type_synonym dict = "(string \<times> json) list"

text \<open>
  An exception is a value. \<open>Raised n\<close> stands for an exception of class \<open>n\<close> raised inside a
  library or an external service (\<^verbatim>\<open>binascii.Error\<close>, \<^verbatim>\<open>OSError\<close>, a network failure).
\<close>

datatype error =
    TypeError
  | KeyError string
  | AttributeError
  | Raised string

text \<open>Python truthiness, as used by \<^verbatim>\<open>if x:\<close>, \<^verbatim>\<open>not x\<close> and \<^verbatim>\<open>bool(x)\<close>.\<close>

fun truthy :: "json \<Rightarrow> bool" where
  "truthy JNull = False"
| "truthy (JBool b) = b"
| "truthy (JNum r) = (r \<noteq> 0)"
| "truthy (JStr s) = (s \<noteq> [])"
| "truthy (JArr xs) = (xs \<noteq> [])"
| "truthy (JObj kvs) = (kvs \<noteq> [])"

text \<open>\<^verbatim>\<open>len(x)\<close> and \<^verbatim>\<open>for y in x\<close>: defined on strings, lists and dictionaries only.\<close>

fun py_len :: "json \<Rightarrow> error + nat" where
  "py_len (JStr s) = Inr (length s)"
| "py_len (JArr xs) = Inr (length xs)"
| "py_len (JObj kvs) = Inr (length kvs)"
| "py_len JNull = Inl TypeError"
| "py_len (JBool b) = Inl TypeError"
| "py_len (JNum r) = Inl TypeError"

fun py_iter :: "json \<Rightarrow> error + json list" where
  "py_iter (JStr s) = Inr (map (\<lambda>c. JStr [c]) s)"
| "py_iter (JArr xs) = Inr xs"
| "py_iter (JObj kvs) = Inr (map (\<lambda>kv. JStr (fst kv)) kvs)"
| "py_iter JNull = Inl TypeError"
| "py_iter (JBool b) = Inl TypeError"
| "py_iter (JNum r) = Inl TypeError"

text \<open>\<^verbatim>\<open>x['k']\<close> with a string key: a dictionary looks the key up, every other value
  raises \<^verbatim>\<open>TypeError\<close>.\<close>

fun py_getitem :: "json \<Rightarrow> string \<Rightarrow> error + json" where
  "py_getitem (JObj kvs) k = (case map_of kvs k of None \<Rightarrow> Inl (KeyError k) | Some v \<Rightarrow> Inr v)"
| "py_getitem JNull k = Inl TypeError"
| "py_getitem (JBool b) k = Inl TypeError"
| "py_getitem (JNum r) k = Inl TypeError"
| "py_getitem (JStr s) k = Inl TypeError"
| "py_getitem (JArr xs) k = Inl TypeError"

text \<open>\<^verbatim>\<open>x.get('k', default)\<close>: only a dictionary has the method.\<close>

fun py_get :: "json \<Rightarrow> string \<Rightarrow> json \<Rightarrow> error + json" where
  "py_get (JObj kvs) k dflt = Inr (case map_of kvs k of None \<Rightarrow> dflt | Some v \<Rightarrow> v)"
| "py_get JNull k dflt = Inl AttributeError"
| "py_get (JBool b) k dflt = Inl AttributeError"
| "py_get (JNum r) k dflt = Inl AttributeError"
| "py_get (JStr s) k dflt = Inl AttributeError"
| "py_get (JArr xs) k dflt = Inl AttributeError"

text \<open>The same two operations on the graph state, which is always a dictionary.\<close>

definition dict_getitem :: "dict \<Rightarrow> string \<Rightarrow> error + json" where
  "dict_getitem d k = (case map_of d k of None \<Rightarrow> Inl (KeyError k) | Some v \<Rightarrow> Inr v)"

definition dict_get :: "dict \<Rightarrow> string \<Rightarrow> json \<Rightarrow> json" where
  "dict_get d k dflt = (case map_of d k of None \<Rightarrow> dflt | Some v \<Rightarrow> v)"

text \<open>Merging a node's partial update into the state: each key of the update overwrites
  the key of the state, or is added to it.\<close>

definition dict_merge :: "dict \<Rightarrow> dict \<Rightarrow> dict" where
  "dict_merge d upd = fold (\<lambda>kv. AList.update (fst kv) (snd kv)) upd d"

text \<open>\<^verbatim>\<open>sep.join(xs)\<close>.\<close>

fun str_join :: "string \<Rightarrow> string list \<Rightarrow> string" where
  "str_join sep [] = []"
| "str_join sep [x] = x"
| "str_join sep (x # y # ys) = x @ sep @ str_join sep (y # ys)"

text \<open>The decimal digits of a natural number, as an f-string renders an \<^verbatim>\<open>int\<close>.\<close>

fun str_of_nat :: "nat \<Rightarrow> string" where
  "str_of_nat n =
     (if n < 10 then [''0123456789'' ! n]
      else str_of_nat (n div 10) @ [''0123456789'' ! (n mod 10)])"

declare str_of_nat.simps [simp del]

text \<open>\<^verbatim>\<open>os.path.join(a, b)\<close> on POSIX, for two components: an absolute \<open>b\<close> replaces \<open>a\<close>.
  The second component comes from the request and must be a string.\<close>

fun os_path_join :: "string \<Rightarrow> json \<Rightarrow> error + string" where
  "os_path_join a (JStr b) =
     Inr (if take 1 b = ''/'' then b
          else if a = [] \<or> last a = CHR ''/'' then a @ b
          else a @ ''/'' @ b)"
| "os_path_join a JNull = Inl TypeError"
| "os_path_join a (JBool b) = Inl TypeError"
| "os_path_join a (JNum r) = Inl TypeError"
| "os_path_join a (JArr xs) = Inl TypeError"
| "os_path_join a (JObj kvs) = Inl TypeError"

section \<open>The world outside the program\<close>

text \<open>
  The calls the program makes to the file system, to object storage, to the index library
  and to the language model are recorded, oldest first, in a trace. \<open>Node\<close> is the
  orchestrator invoking a node of the graph on a state.
\<close>

datatype ('d, 'i) event =
    Print string
  | Mkdtemp
  | OpenWb string
  | Write string string
  | Close string
  | Rmtree string bool
  | LoadData string "string list"
  | FromDocuments "'d list"
  | Iterdir
  | LoadIndexFromStorage
  | S3LoadData
  | Persist 'i
  | Query 'i nat json
  | Complete string
  | Node string dict

text \<open>
  \<open>ext\<close> is the state of everything outside the process (files, the bucket, the model
  services), opaque to the program; \<open>tmp_dirs\<close> are the directories made by
  \<^verbatim>\<open>tempfile.mkdtemp\<close> that still exist.
\<close>

record ('x, 'd, 'i) world =
  ext :: 'x
  tmp_dirs :: "string list"
  trace :: "('d, 'i) event list"

text \<open>
  The external capabilities, each a step on the outside state that returns a value or
  raises. \<open>'d\<close> is the library's document type, \<open>'i\<close> its index type. \<open>query\<close> returns the
  response already rendered by \<^verbatim>\<open>str\<close>, \<open>complete\<close> likewise; \<open>py_str\<close> is \<^verbatim>\<open>str\<close> on the
  values that are not strings.
\<close>

record ('x, 'd, 'i) env =
  b64decode :: "string \<Rightarrow> error + string"
  py_str :: "json \<Rightarrow> string"
  mkdtemp :: "'x \<Rightarrow> (error + string) \<times> 'x"
  open_wb :: "string \<Rightarrow> 'x \<Rightarrow> (error + unit) \<times> 'x"
  file_write :: "string \<Rightarrow> string \<Rightarrow> 'x \<Rightarrow> (error + unit) \<times> 'x"
  file_close :: "string \<Rightarrow> 'x \<Rightarrow> (error + unit) \<times> 'x"
  remove_tree :: "string \<Rightarrow> 'x \<Rightarrow> (error + unit) \<times> 'x"
  directory_load_data :: "string \<Rightarrow> string list \<Rightarrow> 'x \<Rightarrow> (error + 'd list) \<times> 'x"
  from_documents :: "'d list \<Rightarrow> 'x \<Rightarrow> (error + 'i) \<times> 'x"
  storage_iterdir :: "'x \<Rightarrow> (error + string list) \<times> 'x"
  load_index_from_storage :: "'x \<Rightarrow> (error + 'i) \<times> 'x"
  s3_load_data :: "'x \<Rightarrow> (error + 'd list) \<times> 'x"
  persist :: "'i \<Rightarrow> 'x \<Rightarrow> (error + unit) \<times> 'x"
  query :: "'i \<Rightarrow> nat \<Rightarrow> json \<Rightarrow> 'x \<Rightarrow> (error + string) \<times> 'x"
  complete :: "string \<Rightarrow> 'x \<Rightarrow> (error + string) \<times> 'x"

subsection \<open>Sequencing with exceptions\<close>

text \<open>A statement takes the world and returns a value or an exception, with the world
  as the statement left it: the effects made before a \<^verbatim>\<open>raise\<close> stay.\<close>

definition succeed :: "'a \<Rightarrow> 'w \<Rightarrow> (error + 'a) \<times> 'w" where
  "succeed a w = (Inr a, w)"

definition lift :: "error + 'a \<Rightarrow> 'w \<Rightarrow> (error + 'a) \<times> 'w" where
  "lift r w = (r, w)"

definition and_then ::
  "('w \<Rightarrow> (error + 'a) \<times> 'w) \<Rightarrow> ('a \<Rightarrow> 'w \<Rightarrow> (error + 'b) \<times> 'w) \<Rightarrow> 'w \<Rightarrow> (error + 'b) \<times> 'w"
where
  "and_then m f w = (case m w of (Inl e, w') \<Rightarrow> (Inl e, w') | (Inr a, w') \<Rightarrow> f a w')"

text \<open>\<^verbatim>\<open>try: m finally: c\<close>: \<open>c\<close> runs whatever \<open>m\<close> did; an exception of \<open>c\<close> replaces the
  outcome of \<open>m\<close>, otherwise the outcome of \<open>m\<close> stands.\<close>

definition try_finally ::
  "('w \<Rightarrow> (error + 'a) \<times> 'w) \<Rightarrow> ('w \<Rightarrow> (error + unit) \<times> 'w) \<Rightarrow> 'w \<Rightarrow> (error + 'a) \<times> 'w"
where
  "try_finally m c w =
     (case m w of (r, w1) \<Rightarrow>
        (case c w1 of (Inl e, w2) \<Rightarrow> (Inl e, w2) | (Inr u, w2) \<Rightarrow> (r, w2)))"

definition emit :: "('d, 'i) event \<Rightarrow> ('x, 'd, 'i) world \<Rightarrow> (error + unit) \<times> ('x, 'd, 'i) world" where
  "emit ev w = (Inr (), w\<lparr>trace := trace w @ [ev]\<rparr>)"

definition call ::
  "('d, 'i) event \<Rightarrow> ('x \<Rightarrow> (error + 'a) \<times> 'x) \<Rightarrow> ('x, 'd, 'i) world
     \<Rightarrow> (error + 'a) \<times> ('x, 'd, 'i) world"
where
  "call ev op w =
     (case op (ext w) of (r, x) \<Rightarrow> (r, w\<lparr>ext := x, trace := trace w @ [ev]\<rparr>))"

subsection \<open>Library calls with a documented behaviour\<close>

text \<open>\<^verbatim>\<open>tempfile.mkdtemp()\<close> creates a directory and returns its path.\<close>

definition tempfile_mkdtemp ::
  "('x, 'd, 'i) env \<Rightarrow> ('x, 'd, 'i) world \<Rightarrow> (error + string) \<times> ('x, 'd, 'i) world"
where
  "tempfile_mkdtemp env w =
     (case call Mkdtemp (mkdtemp env) w of
        (Inl e, w1) \<Rightarrow> (Inl e, w1)
      | (Inr d, w1) \<Rightarrow> (Inr d, w1\<lparr>tmp_dirs := d # tmp_dirs w1\<rparr>))"

text \<open>\<^verbatim>\<open>shutil.rmtree(path, ignore_errors)\<close>: when the removal fails, the error is raised
  unless \<open>ignore_errors\<close> is set; then it is dropped and the directory stays.\<close>

definition shutil_rmtree ::
  "('x, 'd, 'i) env \<Rightarrow> string \<Rightarrow> bool \<Rightarrow> ('x, 'd, 'i) world \<Rightarrow> (error + unit) \<times> ('x, 'd, 'i) world"
where
  "shutil_rmtree env path ignore_errors w =
     (case call (Rmtree path ignore_errors) (remove_tree env path) w of
        (Inl e, w1) \<Rightarrow> if ignore_errors then (Inr (), w1) else (Inl e, w1)
      | (Inr u, w1) \<Rightarrow> (Inr (), w1\<lparr>tmp_dirs := removeAll path (tmp_dirs w1)\<rparr>))"

text \<open>\<^verbatim>\<open>with open(path, 'wb') as f: body\<close>: the file is closed when the block is left,
  by its end or by an exception.\<close>

definition with_open_wb ::
  "('x, 'd, 'i) env \<Rightarrow> string \<Rightarrow> (('x, 'd, 'i) world \<Rightarrow> (error + 'a) \<times> ('x, 'd, 'i) world)
     \<Rightarrow> ('x, 'd, 'i) world \<Rightarrow> (error + 'a) \<times> ('x, 'd, 'i) world"
where
  "with_open_wb env path body =
     and_then (call (OpenWb path) (open_wb env path)) (\<lambda>f.
     try_finally body (call (Close path) (file_close env path)))"

text \<open>\<^verbatim>\<open>base64.b64decode(x)\<close> accepts a string (or bytes); the decoding itself is the
  library's.\<close>

fun base64_b64decode :: "('x, 'd, 'i) env \<Rightarrow> json \<Rightarrow> error + string" where
  "base64_b64decode env (JStr s) = b64decode env s"
| "base64_b64decode env JNull = Inl TypeError"
| "base64_b64decode env (JBool b) = Inl TypeError"
| "base64_b64decode env (JNum r) = Inl TypeError"
| "base64_b64decode env (JArr xs) = Inl TypeError"
| "base64_b64decode env (JObj kvs) = Inl TypeError"

text \<open>A value interpolated into an f-string: a string as it is, anything else through
  \<^verbatim>\<open>str\<close>.\<close>

fun py_format :: "('x, 'd, 'i) env \<Rightarrow> json \<Rightarrow> string" where
  "py_format env (JStr s) = s"
| "py_format env JNull = py_str env JNull"
| "py_format env (JBool b) = py_str env (JBool b)"
| "py_format env (JNum r) = py_str env (JNum r)"
| "py_format env (JArr xs) = py_str env (JArr xs)"
| "py_format env (JObj kvs) = py_str env (JObj kvs)"

section \<open>The index providers\<close>

text \<open>\<^verbatim>\<open>get_s3_index\<close> (app.py, lines 38-55).\<close>

definition get_s3_index ::
  "('x, 'd, 'i) env \<Rightarrow> ('x, 'd, 'i) world \<Rightarrow> (error + 'i) \<times> ('x, 'd, 'i) world"
where
  "get_s3_index env =
     and_then (call Iterdir (storage_iterdir env)) (\<lambda>entries.
     if entries \<noteq> [] then
       and_then (emit (Print ''---LOADING INDEX FROM LOCAL STORAGE---'')) (\<lambda>p.
       call LoadIndexFromStorage (load_index_from_storage env))
     else
       and_then (emit (Print ''---PULLING PAPERS FROM S3 AND CREATING INDEX---'')) (\<lambda>p.
       and_then (call S3LoadData (s3_load_data env)) (\<lambda>documents.
       and_then (call (FromDocuments documents) (from_documents env documents)) (\<lambda>index.
       and_then (call (Persist index) (persist env index)) (\<lambda>u.
       succeed index)))))"

text \<open>The loop of \<^verbatim>\<open>build_pdf_index\<close> (lines 62-65).\<close>

fun write_pdfs ::
  "('x, 'd, 'i) env \<Rightarrow> string \<Rightarrow> json list \<Rightarrow> ('x, 'd, 'i) world
     \<Rightarrow> (error + unit) \<times> ('x, 'd, 'i) world"
where
  "write_pdfs env tmp_dir [] = succeed ()"
| "write_pdfs env tmp_dir (pdf # rest) =
     and_then (lift (py_getitem pdf ''name'')) (\<lambda>name.
     and_then (lift (os_path_join tmp_dir name)) (\<lambda>file_path.
     and_then (with_open_wb env file_path
       (and_then (lift (py_getitem pdf ''data'')) (\<lambda>data.
        and_then (lift (base64_b64decode env data)) (\<lambda>bytes.
        call (Write file_path bytes) (file_write env file_path bytes))))) (\<lambda>u.
     write_pdfs env tmp_dir rest)))"

text \<open>The body of the \<^verbatim>\<open>try\<close> (lines 62-67).\<close>

definition build_pdf_index_body ::
  "('x, 'd, 'i) env \<Rightarrow> string \<Rightarrow> json \<Rightarrow> ('x, 'd, 'i) world \<Rightarrow> (error + 'i) \<times> ('x, 'd, 'i) world"
where
  "build_pdf_index_body env tmp_dir pdf_files =
     and_then (lift (py_iter pdf_files)) (\<lambda>pdfs.
     and_then (write_pdfs env tmp_dir pdfs) (\<lambda>u.
     and_then (call (LoadData tmp_dir [''.pdf''])
                 (directory_load_data env tmp_dir [''.pdf''])) (\<lambda>documents.
     call (FromDocuments documents) (from_documents env documents))))"

text \<open>\<^verbatim>\<open>build_pdf_index\<close> (lines 57-70).\<close>

definition build_pdf_index ::
  "('x, 'd, 'i) env \<Rightarrow> json \<Rightarrow> ('x, 'd, 'i) world \<Rightarrow> (error + 'i) \<times> ('x, 'd, 'i) world"
where
  "build_pdf_index env pdf_files =
     and_then (lift (py_len pdf_files)) (\<lambda>n.
     and_then (emit (Print (''---BUILDING INDEX FROM '' @ str_of_nat n @ '' UPLOADED PDF(S)---''))) (\<lambda>p.
     and_then (tempfile_mkdtemp env) (\<lambda>tmp_dir.
     try_finally (build_pdf_index_body env tmp_dir pdf_files)
       (shutil_rmtree env tmp_dir True))))"

section \<open>The two nodes and the graph\<close>

text \<open>The list \<^verbatim>\<open>contexts\<close> as \<^verbatim>\<open>retrieve\<close> has it before its \<^verbatim>\<open>return\<close> (lines 81-95).\<close>

definition retrieve_contexts ::
  "('x, 'd, 'i) env \<Rightarrow> dict \<Rightarrow> ('x, 'd, 'i) world \<Rightarrow> (error + string list) \<times> ('x, 'd, 'i) world"
where
  "retrieve_contexts env state =
     and_then
       (if truthy (dict_get state ''pdf_files'' JNull) then
          and_then (lift (dict_getitem state ''pdf_files'')) (\<lambda>pdf_files.
          and_then (build_pdf_index env pdf_files) (\<lambda>pdf_index.
          and_then (lift (dict_getitem state ''question'')) (\<lambda>question.
          and_then (call (Query pdf_index 3 question) (query env pdf_index 3 question)) (\<lambda>result.
          succeed ([] @ [''[Uploaded PDFs]\<newline>'' @ result])))))
        else succeed [])
       (\<lambda>contexts.
        if truthy (dict_get state ''use_s3'' (JBool True)) then
          and_then (get_s3_index env) (\<lambda>s3_index.
          and_then (lift (dict_getitem state ''question'')) (\<lambda>question.
          and_then (call (Query s3_index 3 question) (query env s3_index 3 question)) (\<lambda>result.
          succeed (contexts @ [''[S3 Documents]\<newline>'' @ result]))))
        else succeed contexts)"

text \<open>\<^verbatim>\<open>retrieve\<close> (lines 80-97): the update it returns.\<close>

definition retrieve ::
  "('x, 'd, 'i) env \<Rightarrow> dict \<Rightarrow> ('x, 'd, 'i) world \<Rightarrow> (error + dict) \<times> ('x, 'd, 'i) world"
where
  "retrieve env state =
     and_then (retrieve_contexts env state) (\<lambda>contexts.
     succeed [(''context'',
        JStr (if contexts \<noteq> [] then str_join ''\<newline>\<newline>'' contexts
              else ''No context available.''))])"

text \<open>\<^verbatim>\<open>generate_answer\<close> (lines 99-107).\<close>

definition prompt_of :: "string \<Rightarrow> string \<Rightarrow> string" where
  "prompt_of context question =
     ''\<newline>    You are an expert research assistant. Use the provided context AND your general knowledge.\<newline>    Context: ''
     @ context @ ''\<newline>    Question: '' @ question @ ''\<newline>    Answer:''"

definition generate_answer ::
  "('x, 'd, 'i) env \<Rightarrow> dict \<Rightarrow> ('x, 'd, 'i) world \<Rightarrow> (error + dict) \<times> ('x, 'd, 'i) world"
where
  "generate_answer env state =
     and_then (emit (Print ''---GENERATING FINAL ANSWER---'')) (\<lambda>p.
     and_then (lift (dict_getitem state ''context'')) (\<lambda>context.
     and_then (lift (dict_getitem state ''question'')) (\<lambda>question.
     and_then (call (Complete (prompt_of (py_format env context) (py_format env question)))
                 (complete env (prompt_of (py_format env context) (py_format env question)))) (\<lambda>response.
     succeed [(''response'', JStr response)]))))"

text \<open>
  The compiled workflow (lines 110-116): entry point \<^verbatim>\<open>retrieve\<close>, one edge to
  \<^verbatim>\<open>generate\<close>, one edge to the end. The orchestrator hands each node the state, merges
  the update the node returns, and returns the last state.
\<close>

definition rag_graph_invoke ::
  "('x, 'd, 'i) env \<Rightarrow> dict \<Rightarrow> ('x, 'd, 'i) world \<Rightarrow> (error + dict) \<times> ('x, 'd, 'i) world"
where
  "rag_graph_invoke env input =
     and_then (emit (Node ''retrieve'' input)) (\<lambda>n.
     and_then (retrieve env input) (\<lambda>update.
     and_then (emit (Node ''generate'' (dict_merge input update))) (\<lambda>n.
     and_then (generate_answer env (dict_merge input update)) (\<lambda>update2.
     succeed (dict_merge (dict_merge input update) update2)))))"

section \<open>The request handler\<close>

text \<open>The dictionary the handler passes to \<^verbatim>\<open>rag_graph.invoke\<close> (lines 151-157).\<close>

definition request_state :: "json \<Rightarrow> json \<Rightarrow> json \<Rightarrow> dict" where
  "request_state user_question pdf_files use_s3 =
     [(''question'', user_question), (''pdf_files'', pdf_files), (''use_s3'', use_s3),
      (''context'', JStr []), (''response'', JStr [])]"

record http_response =
  status :: nat
  body :: json

text \<open>\<^verbatim>\<open>get_response\<close> (lines 133-162) on the decoded body \<^verbatim>\<open>request.json\<close>. An exception
  that leaves the handler is the framework's 500.\<close>

definition get_response ::
  "('x, 'd, 'i) env \<Rightarrow> json \<Rightarrow> ('x, 'd, 'i) world \<Rightarrow> (error + http_response) \<times> ('x, 'd, 'i) world"
where
  "get_response env data =
     and_then (lift (py_get data ''question'' JNull)) (\<lambda>user_question.
     if \<not> truthy user_question then
       succeed \<lparr>status = 400, body = JObj [(''error'', JStr ''No question provided'')]\<rparr>
     else
       and_then (lift (py_get data ''pdf_files'' (JArr []))) (\<lambda>pdf_files.
       and_then (lift (py_get data ''use_s3'' (JBool (\<not> truthy pdf_files)))) (\<lambda>use_s3.
       and_then (rag_graph_invoke env (request_state user_question pdf_files use_s3)) (\<lambda>result.
       and_then (lift (dict_getitem result ''response'')) (\<lambda>response.
       succeed \<lparr>status = 200, body = JObj [(''status'', JStr ''success''), (''response'', response)]\<rparr>)))))"

section \<open>Properties of traces\<close>

text \<open>\<open>emits P m\<close>: whatever the world, the statement \<open>m\<close> only appends events to the trace,
  and every event it appends satisfies \<open>P\<close>.\<close>

definition emits ::
  "(('d, 'i) event \<Rightarrow> bool) \<Rightarrow> (('x, 'd, 'i) world \<Rightarrow> 'r \<times> ('x, 'd, 'i) world) \<Rightarrow> bool" where
  "emits P m \<longleftrightarrow> (\<forall>w. \<exists>evs. trace (snd (m w)) = trace w @ evs \<and> list_all P evs)"

text \<open>The events of the retrieval stage: every event but the invocation of a node and the
  call of the language model.\<close>

fun stage_event :: "('d, 'i) event \<Rightarrow> bool" where
  "stage_event (Node n s) = False"
| "stage_event (Complete p) = False"
| "stage_event ev = True"

fun is_node :: "('d, 'i) event \<Rightarrow> bool" where
  "is_node (Node n s) = True"
| "is_node ev = False"

section \<open>A test double of the outside world\<close>

text \<open>
  The closed examples below run the program against a small fake: a file system that
  keeps what is written, a decoder that knows the base64 text of \<^verbatim>\<open>hi\<close> and the empty
  text and rejects every other one (\<^verbatim>\<open>abc\<close> is rejected by the real decoder too: its
  padding is wrong), a directory reader that turns each \<^verbatim>\<open>.pdf\<close> file into one document
  holding the file's bytes and raises when it finds none, an index that is the list of its
  documents, and a query that renders the first \<open>k\<close> of them. The outside state is the
  files written and the entries of the snapshot directory.
\<close>

type_synonym demo_ext = "(string \<times> string) list \<times> string list"

definition under_dir :: "string \<Rightarrow> string \<Rightarrow> bool" where
  "under_dir d p = (take (length d + 1) p = d @ ''/'')"

definition has_ext :: "string \<Rightarrow> string \<Rightarrow> bool" where
  "has_ext e p = (drop (length p - length e) p = e)"

definition demo_env :: "(demo_ext, string, string list) env" where
  "demo_env = \<lparr>
     b64decode = (\<lambda>s. if s = ''aGk='' then Inr ''hi'' else if s = [] then Inr []
                       else Inl (Raised ''binascii.Error'')),
     py_str = (\<lambda>v. ''?''),
     mkdtemp = (\<lambda>x. (Inr ''/tmp/tmpq1'', x)),
     open_wb = (\<lambda>p x. (Inr (), ((p, []) # filter (\<lambda>f. fst f \<noteq> p) (fst x), snd x))),
     file_write = (\<lambda>p b x.
        (Inr (), (map (\<lambda>f. if fst f = p then (p, snd f @ b) else f) (fst x), snd x))),
     file_close = (\<lambda>p x. (Inr (), x)),
     remove_tree = (\<lambda>d x. (Inr (), (filter (\<lambda>f. \<not> under_dir d (fst f)) (fst x), snd x))),
     directory_load_data = (\<lambda>d exts x.
        (let fs = filter (\<lambda>f. under_dir d (fst f) \<and> list_ex (\<lambda>e. has_ext e (fst f)) exts) (fst x)
         in if fs = [] then Inl (Raised ''ValueError'') else Inr (map snd fs), x)),
     from_documents = (\<lambda>docs x. (Inr docs, x)),
     storage_iterdir = (\<lambda>x. (Inr (snd x), x)),
     load_index_from_storage = (\<lambda>x. (Inr [''stored''], x)),
     s3_load_data = (\<lambda>x. (Inr [''paper''], x)),
     persist = (\<lambda>i x. (Inr (), (fst x, ''docstore.json'' # snd x))),
     query = (\<lambda>i k q x. (Inr (str_join '' '' (take k i)), x)),
     complete = (\<lambda>p x. (Inr ''An answer.'', x)) \<rparr>"

text \<open>A world with the given snapshot entries, no file and an empty trace.\<close>

definition demo_world :: "string list \<Rightarrow> (demo_ext, string, string list) world" where
  "demo_world snapshot = \<lparr>ext = ([], snapshot), tmp_dirs = [], trace = []\<rparr>"

text \<open>One upload, \<^verbatim>\<open>a.pdf\<close> holding \<^verbatim>\<open>hi\<close>, and a state with it and the persistent corpus
  asked for.\<close>

definition demo_upload :: json where
  "demo_upload = JArr [JObj [(''name'', JStr ''a.pdf''), (''data'', JStr ''aGk='')]]"

definition demo_state :: dict where
  "demo_state = request_state (JStr ''What is RAG?'') demo_upload (JBool True)"

text \<open>A state with no upload and the persistent corpus switched off.\<close>

definition demo_plain_state :: dict where
  "demo_plain_state = request_state (JStr ''What is RAG?'') (JArr []) (JBool False)"

text \<open>A state with one upload, an empty \<^verbatim>\<open>a.pdf\<close>, and the persistent corpus switched off.\<close>

definition demo_blank_state :: dict where
  "demo_blank_state =
     request_state (JStr ''What is RAG?'')
       (JArr [JObj [(''name'', JStr ''a.pdf''), (''data'', JStr [])]]) (JBool False)"

text \<open>One upload whose data is not base64, and the request that carries it.\<close>

definition demo_bad_upload :: json where
  "demo_bad_upload = JArr [JObj [(''name'', JStr ''a.pdf''), (''data'', JStr ''abc'')]]"

definition demo_bad_request :: dict where
  "demo_bad_request =
     [(''question'', JStr ''Summarize this''), (''pdf_files'', demo_bad_upload),
      (''use_s3'', JBool False)]"

text \<open>The fake with a removal that always fails.\<close>

definition demo_env_stuck :: "(demo_ext, string, string list) env" where
  "demo_env_stuck = demo_env\<lparr>remove_tree := (\<lambda>d x. (Inl (Raised ''OSError''), x))\<rparr>"

section \<open>Sequencing lemmas\<close>

lemma and_then_succeed [simp]: "and_then (succeed a) f = f a"
  by (rule ext) (simp add: and_then_def succeed_def)

lemma and_then_lift_Inr [simp]: "and_then (lift (Inr a)) f = f a"
  by (rule ext) (simp add: and_then_def lift_def)

lemma and_then_lift_Inl [simp]: "and_then (lift (Inl e)) f w = (Inl e, w)"
  by (simp add: and_then_def lift_def)

lemma and_then_emit [simp]: "and_then (emit ev) f w = f () (w\<lparr>trace := trace w @ [ev]\<rparr>)"
  by (simp add: and_then_def emit_def)

lemma succeed_eq [simp]: "succeed a w = (r, w') \<longleftrightarrow> r = Inr a \<and> w' = w"
  by (auto simp: succeed_def)

lemma lift_eq [simp]: "lift x w = (r, w') \<longleftrightarrow> x = r \<and> w' = w"
  by (auto simp: lift_def)

lemma and_then_Inr:
  "and_then m f w = (Inr b, w') \<longleftrightarrow> (\<exists>a w1. m w = (Inr a, w1) \<and> f a w1 = (Inr b, w'))"
  by (auto simp: and_then_def split: prod.splits sum.splits)

lemma call_Inr:
  "call ev op w = (Inr a, w') \<longleftrightarrow>
     (\<exists>x. op (ext w) = (Inr a, x) \<and> w' = w\<lparr>ext := x, trace := trace w @ [ev]\<rparr>)"
  by (auto simp: call_def split: prod.splits)

text \<open>A statement raises when the first component of its outcome is an \<open>Inl\<close>.\<close>

lemma and_then_isl: "isl (fst (m w)) \<Longrightarrow> isl (fst (and_then m f w))"
  by (cases "m w") (auto simp: and_then_def isl_def)

lemma and_then_isl_cases:
  "(\<And>a w1. m w = (Inr a, w1) \<Longrightarrow> isl (fst (f a w1))) \<Longrightarrow> isl (fst (and_then m f w))"
  by (cases "m w"; cases "fst (m w)") (auto simp: and_then_def)

lemma try_finally_isl: "isl (fst (m w)) \<Longrightarrow> isl (fst (try_finally m c w))"
  by (cases "m w") (auto simp: try_finally_def isl_def split: prod.splits sum.splits)

section \<open>What each function adds to the trace\<close>

lemma emitsI: "(\<And>w. \<exists>evs. trace (snd (m w)) = trace w @ evs \<and> list_all P evs) \<Longrightarrow> emits P m"
  by (simp add: emits_def)

lemma emitsD: "emits P m \<Longrightarrow> m w = (r, w') \<Longrightarrow> \<exists>evs. trace w' = trace w @ evs \<and> list_all P evs"
  by (metis emits_def snd_conv)

lemma emits_succeed: "emits P (succeed a)"
  by (simp add: emits_def succeed_def)

lemma emits_lift: "emits P (lift r)"
  by (simp add: emits_def lift_def)

lemma emits_emit: "P ev \<Longrightarrow> emits P (emit ev)"
  by (simp add: emits_def emit_def)

lemma emits_call: "P ev \<Longrightarrow> emits P (call ev op)"
  by (simp add: emits_def call_def split: prod.splits)

lemma emits_and_then:
  assumes "emits P m" and "\<And>a. emits P (f a)"
  shows "emits P (and_then m f)"
proof (rule emitsI)
  fix w
  obtain r w1 where m: "m w = (r, w1)" by (cases "m w")
  from emitsD [OF assms(1) m] obtain e1 where e1: "trace w1 = trace w @ e1" "list_all P e1" by blast
  show "\<exists>evs. trace (snd (and_then m f w)) = trace w @ evs \<and> list_all P evs"
  proof (cases r)
    case (Inl e)
    with m e1 show ?thesis by (simp add: and_then_def)
  next
    case (Inr a)
    obtain r2 w2 where f: "f a w1 = (r2, w2)" by (cases "f a w1")
    from emitsD [OF assms(2) f] obtain e2 where "trace w2 = trace w1 @ e2" "list_all P e2" by blast
    with m e1 Inr f show ?thesis by (simp add: and_then_def)
  qed
qed

lemma emits_try_finally:
  assumes "emits P m" and "emits P c"
  shows "emits P (try_finally m c)"
proof (rule emitsI)
  fix w
  obtain r w1 where m: "m w = (r, w1)" by (cases "m w")
  from emitsD [OF assms(1) m] obtain e1 where e1: "trace w1 = trace w @ e1" "list_all P e1" by blast
  obtain r2 w2 where c: "c w1 = (r2, w2)" by (cases "c w1")
  from emitsD [OF assms(2) c] obtain e2 where "trace w2 = trace w1 @ e2" "list_all P e2" by blast
  with m e1 c show "\<exists>evs. trace (snd (try_finally m c w)) = trace w @ evs \<and> list_all P evs"
    by (cases r2) (simp_all add: try_finally_def)
qed

lemma emits_if: "emits P a \<Longrightarrow> emits P b \<Longrightarrow> emits P (if c then a else b)"
  by simp

lemma emits_tempfile_mkdtemp: "P Mkdtemp \<Longrightarrow> emits P (tempfile_mkdtemp env)"
  by (simp add: emits_def tempfile_mkdtemp_def call_def split: prod.splits sum.splits)

lemma emits_shutil_rmtree: "P (Rmtree d b) \<Longrightarrow> emits P (shutil_rmtree env d b)"
  by (cases b) (auto simp: emits_def shutil_rmtree_def call_def split: prod.splits sum.splits)

lemma emits_with_open_wb:
  "P (OpenWb p) \<Longrightarrow> P (Close p) \<Longrightarrow> emits P blk \<Longrightarrow> emits P (with_open_wb env p blk)"
  unfolding with_open_wb_def by (intro emits_and_then emits_try_finally emits_call)

lemma emits_write_pdfs: "emits stage_event (write_pdfs env d pdfs)"
  by (induction pdfs)
     (auto intro!: emits_succeed emits_lift emits_and_then emits_with_open_wb emits_call)

lemma emits_build_pdf_index: "emits stage_event (build_pdf_index env pdfs)"
  unfolding build_pdf_index_def build_pdf_index_body_def
  by (intro emits_and_then emits_try_finally emits_write_pdfs emits_lift emits_emit emits_call
        emits_tempfile_mkdtemp emits_shutil_rmtree) simp_all

lemma emits_get_s3_index: "emits stage_event (get_s3_index env)"
  unfolding get_s3_index_def
  by (intro emits_and_then emits_if emits_succeed emits_emit emits_call) simp_all

lemma emits_retrieve: "emits stage_event (retrieve env state)"
  unfolding retrieve_def retrieve_contexts_def
  by (intro emits_and_then emits_if emits_succeed emits_lift emits_call
        emits_build_pdf_index emits_get_s3_index) simp_all

lemma emits_generate_answer: "emits (\<lambda>ev. \<not> is_node ev) (generate_answer env state)"
  unfolding generate_answer_def
  by (intro emits_and_then emits_lift emits_succeed emits_emit emits_call) simp_all

section \<open>Dictionaries and strings\<close>

lemma dict_getitem_merge_same: "dict_getitem (dict_merge d [(k, v)]) k = Inr v"
  by (simp add: dict_getitem_def dict_merge_def update_conv')

lemma map_of_merge_other: "k' \<noteq> k \<Longrightarrow> map_of (dict_merge d [(k, v)]) k' = map_of d k'"
  by (simp add: dict_merge_def update_conv')

lemma str_join_nonempty: "cs \<noteq> [] \<Longrightarrow> hd cs \<noteq> [] \<Longrightarrow> str_join sep cs \<noteq> []"
  by (cases "(sep, cs)" rule: str_join.cases) simp_all

lemma str_of_nat_1: "str_of_nat (Suc 0) = ''1''"
  by (simp add: str_of_nat.simps)

section \<open>The retrieval stage\<close>

lemma retrieve_result:
  "retrieve env state w = (Inr update, w') \<longleftrightarrow>
     (\<exists>contexts. retrieve_contexts env state w = (Inr contexts, w') \<and>
        update = [(''context'', JStr (if contexts \<noteq> [] then str_join ''\<newline>\<newline>'' contexts
                                       else ''No context available.''))])"
  by (auto simp: retrieve_def and_then_Inr)

lemma retrieve_contexts_both:
  assumes "truthy (dict_get state ''pdf_files'' JNull)"
    and "truthy (dict_get state ''use_s3'' (JBool True))"
    and "retrieve_contexts env state w = (Inr contexts, w')"
  shows "\<exists>r1 r2. contexts = [''[Uploaded PDFs]\<newline>'' @ r1, ''[S3 Documents]\<newline>'' @ r2]"
  using assms by (auto simp: retrieve_contexts_def and_then_Inr)

lemma retrieve_contexts_elems:
  assumes "retrieve_contexts env state w = (Inr contexts, w')"
  shows "\<forall>c \<in> set contexts. c \<noteq> []"
  using assms by (auto simp: retrieve_contexts_def and_then_Inr split: if_splits)

lemma retrieve_contexts_neither:
  assumes "\<not> truthy (dict_get state ''pdf_files'' JNull)"
    and "\<not> truthy (dict_get state ''use_s3'' (JBool True))"
  shows "retrieve_contexts env state w = (Inr [], w)"
  using assms by (simp add: retrieve_contexts_def)

lemma retrieve_nonempty:
  assumes "retrieve env state w = (Inr update, w')"
  shows "\<exists>c. update = [(''context'', JStr c)] \<and> c \<noteq> []"
proof -
  from assms obtain contexts where
    c: "retrieve_contexts env state w = (Inr contexts, w')" and
    u: "update = [(''context'', JStr (if contexts \<noteq> [] then str_join ''\<newline>\<newline>'' contexts
                                       else ''No context available.''))]"
    unfolding retrieve_result by blast
  show ?thesis
  proof (cases "contexts = []")
    case True
    with u show ?thesis by simp
  next
    case False
    with retrieve_contexts_elems [OF c] have "hd contexts \<noteq> []" by simp
    with False have "str_join ''\<newline>\<newline>'' contexts \<noteq> []" by (rule str_join_nonempty)
    with u False show ?thesis by simp
  qed
qed

lemma uploads_branch:
  assumes "and_then (lift (dict_getitem state ''pdf_files'')) (\<lambda>pdf_files.
          and_then (build_pdf_index env pdf_files) (\<lambda>pdf_index.
          and_then (lift (dict_getitem state ''question'')) (\<lambda>question.
          and_then (call (Query pdf_index 3 question) (query env pdf_index 3 question)) (\<lambda>result.
          succeed ([] @ [label @ result]))))) w = (Inr cs, w0)"
  shows "\<exists>pdf_files pdf_index w1 question result x.
      dict_getitem state ''pdf_files'' = Inr pdf_files
    \<and> build_pdf_index env pdf_files w = (Inr pdf_index, w1)
    \<and> dict_getitem state ''question'' = Inr question
    \<and> query env pdf_index 3 question (ext w1) = (Inr result, x)
    \<and> cs = [label @ result]"
proof -
  from assms obtain pdf_files pdf_index w1 question result w2 where
    "dict_getitem state ''pdf_files'' = Inr pdf_files"
    "build_pdf_index env pdf_files w = (Inr pdf_index, w1)"
    "dict_getitem state ''question'' = Inr question"
    "call (Query pdf_index 3 question) (query env pdf_index 3 question) w1 = (Inr result, w2)"
    "cs = [label @ result]"
    by (auto simp: and_then_Inr)
  then show ?thesis unfolding call_Inr by blast
qed

section \<open>The graph\<close>

lemma generate_answer_keys:
  "generate_answer env state w = (Inr update, w') \<Longrightarrow> \<exists>t. update = [(''response'', JStr t)]"
  by (auto simp: generate_answer_def and_then_Inr)

lemma generate_answer_unfold:
  assumes "dict_getitem state ''context'' = Inr (JStr c)"
    and "dict_getitem state ''question'' = Inr (JStr q)"
    and "complete env (prompt_of c q) (ext w) = (r, x)"
  shows "generate_answer env state w =
       ((case r of Inl e \<Rightarrow> Inl e | Inr t \<Rightarrow> Inr [(''response'', JStr t)]),
        w\<lparr>ext := x, trace := trace w @
            [Print ''---GENERATING FINAL ANSWER---'', Complete (prompt_of c q)]\<rparr>)"
  using assms
  by (cases r) (simp_all add: generate_answer_def and_then_def call_def succeed_def emit_def)

text \<open>The trace of a run of the graph: the retrieve node, the events of the retrieval, and,
  when the retrieval returned, the generate node on the merged state and its events.\<close>

lemma rag_graph_invoke_trace:
  assumes "rag_graph_invoke env input w = (r, w')"
  shows "\<exists>evs1. list_all stage_event evs1 \<and>
     ((\<exists>e. r = Inl e \<and> trace w' = trace w @ Node ''retrieve'' input # evs1
          \<and> fst (retrieve env input (w\<lparr>trace := trace w @ [Node ''retrieve'' input]\<rparr>)) = Inl e) \<or>
      (\<exists>update evs2. fst (retrieve env input (w\<lparr>trace := trace w @ [Node ''retrieve'' input]\<rparr>)) = Inr update
          \<and> list_all (\<lambda>ev. \<not> is_node ev) evs2
          \<and> trace w' = trace w @ Node ''retrieve'' input # evs1
                @ Node ''generate'' (dict_merge input update) # evs2))"
proof -
  let ?w0 = "w\<lparr>trace := trace w @ [Node ''retrieve'' input]\<rparr>"
  obtain r1 w1 where r1: "retrieve env input ?w0 = (r1, w1)" by (cases "retrieve env input ?w0")
  from emitsD [OF emits_retrieve r1] obtain evs1 where
    e1: "trace w1 = trace ?w0 @ evs1" "list_all stage_event evs1" by blast
  show ?thesis
  proof (cases r1)
    case (Inl e)
    with assms r1 have "r = Inl e" "w' = w1"
      by (simp_all add: rag_graph_invoke_def and_then_def emit_def)
    with e1 r1 Inl show ?thesis by auto
  next
    case (Inr update)
    let ?s = "dict_merge input update"
    let ?w2 = "w1\<lparr>trace := trace w1 @ [Node ''generate'' ?s]\<rparr>"
    obtain r2 w3 where r2: "generate_answer env ?s ?w2 = (r2, w3)"
      by (cases "generate_answer env ?s ?w2")
    from emitsD [OF emits_generate_answer r2] obtain evs2 where
      e2: "trace w3 = trace ?w2 @ evs2" "list_all (\<lambda>ev. \<not> is_node ev) evs2" by blast
    from assms r1 Inr r2 have "w' = w3"
      by (cases r2) (simp_all add: rag_graph_invoke_def and_then_def emit_def)
    with e1 e2 r1 Inr show ?thesis by auto
  qed
qed

lemma generate_receives:
  assumes "rag_graph_invoke env input w = (r, w')"
    and "Node ''generate'' s \<in> set (drop (length (trace w)) (trace w'))"
  shows "\<exists>update w0 w1. retrieve env input w0 = (Inr update, w1) \<and> s = dict_merge input update"
proof -
  from rag_graph_invoke_trace [OF assms(1)] obtain evs1 where
    s1: "list_all stage_event evs1" and
    d: "(\<exists>e. r = Inl e \<and> trace w' = trace w @ Node ''retrieve'' input # evs1
          \<and> fst (retrieve env input (w\<lparr>trace := trace w @ [Node ''retrieve'' input]\<rparr>)) = Inl e) \<or>
      (\<exists>update evs2. fst (retrieve env input (w\<lparr>trace := trace w @ [Node ''retrieve'' input]\<rparr>)) = Inr update
          \<and> list_all (\<lambda>ev. \<not> is_node ev) evs2
          \<and> trace w' = trace w @ Node ''retrieve'' input # evs1
                @ Node ''generate'' (dict_merge input update) # evs2)" by blast
  have n1: "Node ''generate'' s \<notin> set evs1"
    using s1 by (auto simp: list_all_iff)
  from d show ?thesis
  proof
    assume "\<exists>e. r = Inl e \<and> trace w' = trace w @ Node ''retrieve'' input # evs1
          \<and> fst (retrieve env input (w\<lparr>trace := trace w @ [Node ''retrieve'' input]\<rparr>)) = Inl e"
    with assms(2) n1 show ?thesis by auto
  next
    assume "\<exists>update evs2. fst (retrieve env input (w\<lparr>trace := trace w @ [Node ''retrieve'' input]\<rparr>)) = Inr update
          \<and> list_all (\<lambda>ev. \<not> is_node ev) evs2
          \<and> trace w' = trace w @ Node ''retrieve'' input # evs1
                @ Node ''generate'' (dict_merge input update) # evs2"
    then obtain update evs2 where
      u: "fst (retrieve env input (w\<lparr>trace := trace w @ [Node ''retrieve'' input]\<rparr>)) = Inr update" and
      n2: "list_all (\<lambda>ev. \<not> is_node ev) evs2" and
      t: "trace w' = trace w @ Node ''retrieve'' input # evs1
                @ Node ''generate'' (dict_merge input update) # evs2" by blast
    have "Node ''generate'' s \<notin> set evs2" using n2 by (auto simp: list_all_iff)
    with assms(2) n1 t have "s = dict_merge input update" by auto
    with u show ?thesis by (metis prod.collapse)
  qed
qed

lemma rag_graph_invoke_first:
  "trace (snd (rag_graph_invoke env input w)) ! length (trace w) = Node ''retrieve'' input"
proof -
  obtain r w' where a: "rag_graph_invoke env input w = (r, w')"
    by (cases "rag_graph_invoke env input w")
  from rag_graph_invoke_trace [OF a] obtain rest where
    "trace w' = trace w @ Node ''retrieve'' input # rest" by auto
  with a show ?thesis by simp
qed

lemma rag_graph_invoke_marks: "trace (snd (rag_graph_invoke env input w)) \<noteq> trace w"
proof -
  obtain r w' where a: "rag_graph_invoke env input w = (r, w')"
    by (cases "rag_graph_invoke env input w")
  from rag_graph_invoke_trace [OF a] obtain rest where
    "trace w' = trace w @ Node ''retrieve'' input # rest" by auto
  with a show ?thesis by simp
qed

section \<open>The handler\<close>

lemma get_response_run:
  assumes "map_of kvs ''question'' = Some q" and "truthy q"
  shows "get_response env (JObj kvs) w =
     and_then (rag_graph_invoke env
       (request_state q (case map_of kvs ''pdf_files'' of None \<Rightarrow> JArr [] | Some p \<Rightarrow> p)
          (case map_of kvs ''use_s3'' of
             None \<Rightarrow> JBool (\<not> truthy (case map_of kvs ''pdf_files'' of None \<Rightarrow> JArr [] | Some p \<Rightarrow> p))
           | Some u \<Rightarrow> u)))
       (\<lambda>result. and_then (lift (dict_getitem result ''response'')) (\<lambda>response.
          succeed \<lparr>status = 200,
                   body = JObj [(''status'', JStr ''success''), (''response'', response)]\<rparr>)) w"
  using assms by (simp add: get_response_def)

lemma get_response_invokes:
  assumes "map_of kvs ''question'' = Some q" and "truthy q"
  shows "snd (get_response env (JObj kvs) w) =
     snd (rag_graph_invoke env
       (request_state q (case map_of kvs ''pdf_files'' of None \<Rightarrow> JArr [] | Some p \<Rightarrow> p)
          (case map_of kvs ''use_s3'' of
             None \<Rightarrow> JBool (\<not> truthy (case map_of kvs ''pdf_files'' of None \<Rightarrow> JArr [] | Some p \<Rightarrow> p))
           | Some u \<Rightarrow> u)) w)"
  unfolding get_response_run [OF assms]
  by (simp add: and_then_def lift_def succeed_def split: prod.splits sum.splits)

section \<open>Removing the temporary directory\<close>

lemma shutil_rmtree_ignore: "\<exists>w'. shutil_rmtree env d True w = (Inr (), w')"
  by (simp add: shutil_rmtree_def call_def split: prod.splits sum.splits)

lemma shutil_rmtree_world:
  assumes "remove_tree env d (ext w) = (rm, x)"
  shows "trace (snd (shutil_rmtree env d i w)) = trace w @ [Rmtree d i]"
    and "rm = Inr () \<Longrightarrow> d \<notin> set (tmp_dirs (snd (shutil_rmtree env d i w)))"
  using assms by (auto simp: shutil_rmtree_def call_def split: sum.splits)

lemma try_finally_rmtree:
  assumes "m w = (r, w2)"
  shows "try_finally m (shutil_rmtree env d True) w = (r, snd (shutil_rmtree env d True w2))"
proof -
  from shutil_rmtree_ignore obtain w' where "shutil_rmtree env d True w2 = (Inr (), w')" by blast
  with assms show ?thesis by (simp add: try_finally_def)
qed

section \<open>An upload that does not decode\<close>

lemma write_pdfs_undecodable:
  assumes "b64decode env d = Inl e"
    and "map_of file ''name'' = Some (JStr n)" and "map_of file ''data'' = Some (JStr d)"
  shows "isl (fst (write_pdfs env t (JObj file # rest) w))"
proof -
  obtain path where p: "os_path_join t (JStr n) = Inr path" by simp
  have b: "isl (fst ((and_then (lift (py_getitem (JObj file) ''data'')) (\<lambda>data.
        and_then (lift (base64_b64decode env data)) (\<lambda>bytes.
        call (Write path bytes) (file_write env path bytes)))) w1))" for w1
    using assms by simp
  have "isl (fst (with_open_wb env path
       (and_then (lift (py_getitem (JObj file) ''data'')) (\<lambda>data.
        and_then (lift (base64_b64decode env data)) (\<lambda>bytes.
        call (Write path bytes) (file_write env path bytes)))) w))"
    unfolding with_open_wb_def
    by (rule and_then_isl_cases) (rule try_finally_isl, rule b)
  then show ?thesis
    using assms(2) p by (simp del: os_path_join.simps add: and_then_isl)
qed

lemma build_pdf_index_undecodable:
  assumes "b64decode env d = Inl e"
    and "map_of file ''name'' = Some (JStr n)" and "map_of file ''data'' = Some (JStr d)"
  shows "isl (fst (build_pdf_index env (JArr (JObj file # rest)) w))"
proof -
  have body: "isl (fst (build_pdf_index_body env t (JArr (JObj file # rest)) w1))" for t w1
    unfolding build_pdf_index_body_def
    using write_pdfs_undecodable [OF assms] by (simp add: and_then_isl)
  show ?thesis
    unfolding build_pdf_index_def
    by (simp only: py_len.simps and_then_lift_Inr and_then_emit)
       (rule and_then_isl_cases, rule try_finally_isl, rule body)
qed

lemma retrieve_undecodable:
  assumes "b64decode env d = Inl e"
    and "map_of file ''name'' = Some (JStr n)" and "map_of file ''data'' = Some (JStr d)"
    and "map_of state ''pdf_files'' = Some (JArr (JObj file # rest))"
  shows "isl (fst (retrieve env state w))"
  unfolding retrieve_def retrieve_contexts_def
  using assms(4) build_pdf_index_undecodable [OF assms(1-3)]
  by (intro and_then_isl) (simp add: dict_get_def dict_getitem_def and_then_isl)

lemma undecodable_fails:
  assumes "b64decode env d = Inl e"
    and "map_of kvs ''question'' = Some q" and "truthy q"
    and "map_of kvs ''pdf_files'' = Some (JArr [JObj file])"
    and "map_of file ''name'' = Some (JStr n)" and "map_of file ''data'' = Some (JStr d)"
    and "map_of kvs ''use_s3'' = Some (JBool False)"
  shows "\<exists>e' evs.
      fst (get_response env (JObj kvs) w) = Inl e'
    \<and> trace (snd (get_response env (JObj kvs) w)) =
        trace w @ Node ''retrieve'' (request_state q (JArr [JObj file]) (JBool False)) # evs
    \<and> list_all stage_event evs"
proof -
  let ?st = "request_state q (JArr [JObj file]) (JBool False)"
  have g: "get_response env (JObj kvs) w =
     and_then (rag_graph_invoke env ?st)
       (\<lambda>result. and_then (lift (dict_getitem result ''response'')) (\<lambda>response.
          succeed \<lparr>status = 200,
                   body = JObj [(''status'', JStr ''success''), (''response'', response)]\<rparr>)) w"
    using get_response_run [OF assms(2,3)] assms(4,7) by simp
  obtain r w' where i: "rag_graph_invoke env ?st w = (r, w')"
    by (cases "rag_graph_invoke env ?st w")
  have "map_of ?st ''pdf_files'' = Some (JArr (JObj file # []))"
    by (simp add: request_state_def)
  from retrieve_undecodable [OF assms(1,5,6) this]
  have f: "isl (fst (retrieve env ?st w1))" for w1 .
  from rag_graph_invoke_trace [OF i] f obtain e' evs where
    "r = Inl e'" "trace w' = trace w @ Node ''retrieve'' ?st # evs" "list_all stage_event evs"
    by (metis isl_def sum.disc(2))
  with g i show ?thesis by (simp add: and_then_def)
qed

lemma undecodable_exact:
  assumes "b64decode env d = Inl e"
    and "map_of kvs ''question'' = Some q" and "truthy q"
    and "map_of kvs ''pdf_files'' = Some (JArr [JObj file])"
    and "map_of file ''name'' = Some (JStr n)" and "map_of file ''data'' = Some (JStr d)"
    and "map_of kvs ''use_s3'' = Some (JBool False)"
    and "mkdtemp env (ext w) = (Inr t, x1)"
    and "os_path_join t (JStr n) = Inr path"
    and "open_wb env path x1 = (Inr (), x2)"
    and "file_close env path x2 = (Inr (), x3)"
  shows "fst (get_response env (JObj kvs) w) = Inl e
    \<and> trace (snd (get_response env (JObj kvs) w)) =
        trace w @ [Node ''retrieve'' (request_state q (JArr [JObj file]) (JBool False)),
          Print ''---BUILDING INDEX FROM 1 UPLOADED PDF(S)---'', Mkdtemp,
          OpenWb path, Close path, Rmtree t True]"
proof -
  let ?st = "request_state q (JArr [JObj file]) (JBool False)"
  let ?w0 = "w\<lparr>trace := trace w @ [Node ''retrieve'' ?st]\<rparr>"
  have w: "write_pdfs env t [JObj file] w1 =
      (Inl e, w1\<lparr>ext := x3, trace := trace w1 @ [OpenWb path, Close path]\<rparr>)"
    if "ext w1 = x1" for w1 :: "('a, 'b, 'c) world"
    using assms(1,5,6,9,10,11) that
    by (simp del: os_path_join.simps
        add: with_open_wb_def try_finally_def and_then_def call_def lift_def)
  let ?w1 = "?w0\<lparr>ext := x1,
      trace := trace ?w0 @ [Print ''---BUILDING INDEX FROM 1 UPLOADED PDF(S)---'', Mkdtemp],
      tmp_dirs := t # tmp_dirs ?w0\<rparr>"
  let ?w2 = "?w1\<lparr>ext := x3, trace := trace ?w1 @ [OpenWb path, Close path]\<rparr>"
  have wp: "write_pdfs env t [JObj file] ?w1 = (Inl e, ?w2)"
    using w [of ?w1] by simp
  have body: "build_pdf_index_body env t (JArr [JObj file]) ?w1 = (Inl e, ?w2)"
    unfolding build_pdf_index_body_def using wp
    by (simp add: and_then_def del: write_pdfs.simps)
  have "build_pdf_index env (JArr [JObj file]) ?w0 =
      try_finally (build_pdf_index_body env t (JArr [JObj file])) (shutil_rmtree env t True) ?w1"
    using assms(8)
    by (simp add: build_pdf_index_def and_then_def lift_def emit_def tempfile_mkdtemp_def
        call_def str_of_nat_1)
  with try_finally_rmtree [of "build_pdf_index_body env t (JArr [JObj file])" ?w1 "Inl e" ?w2 env t,
      OF body]
  have b1: "build_pdf_index env (JArr [JObj file]) ?w0 =
      (Inl e, snd (shutil_rmtree env t True ?w2))" by simp
  obtain rm x' where "remove_tree env t (ext ?w2) = (rm, x')"
    by (cases "remove_tree env t (ext ?w2)")
  from shutil_rmtree_world(1) [OF this]
  have "trace (snd (shutil_rmtree env t True ?w2)) = trace ?w2 @ [Rmtree t True]" .
  with b1 obtain wb where
    b: "build_pdf_index env (JArr [JObj file]) ?w0 = (Inl e, wb)" and
    tb: "trace wb = trace w @ [Node ''retrieve'' ?st,
          Print ''---BUILDING INDEX FROM 1 UPLOADED PDF(S)---'', Mkdtemp,
          OpenWb path, Close path, Rmtree t True]"
    by simp
  have p: "dict_get ?st ''pdf_files'' JNull = JArr [JObj file]"
    "dict_getitem ?st ''pdf_files'' = Inr (JArr [JObj file])"
    by (simp_all add: request_state_def dict_get_def dict_getitem_def)
  have r: "retrieve env ?st ?w0 = (Inl e, wb)"
    using b p by (simp add: retrieve_def retrieve_contexts_def and_then_def lift_def)
  have i: "rag_graph_invoke env ?st w = (Inl e, wb)"
    using r by (simp add: rag_graph_invoke_def and_then_def emit_def)
  have g: "get_response env (JObj kvs) w =
     and_then (rag_graph_invoke env ?st)
       (\<lambda>result. and_then (lift (dict_getitem result ''response'')) (\<lambda>response.
          succeed \<lparr>status = 200,
                   body = JObj [(''status'', JStr ''success''), (''response'', response)]\<rparr>)) w"
    using get_response_run [OF assms(2,3)] assms(4,7) by simp
  from g i tb show ?thesis by (simp add: and_then_def)
qed

section \<open>The claims\<close>

subsection \<open>C1: the order of the fragments\<close>

text \<open>
  C1. When the state has uploaded documents (a truthy \<^verbatim>\<open>pdf_files\<close>) and the
  persistent-corpus flag is true (a truthy \<^verbatim>\<open>use_s3\<close>, or none, which defaults to true), a
  retrieval that returns has collected exactly two fragments, the one labelled
  \<^verbatim>\<open>[Uploaded PDFs]\<close> first and the one labelled \<^verbatim>\<open>[S3 Documents]\<close> second, and the context
  it returns is the first, a blank line, the second.
\<close>

theorem retrieve_order:
  assumes "truthy (dict_get state ''pdf_files'' JNull)"
    and "truthy (dict_get state ''use_s3'' (JBool True))"
    and "retrieve env state w = (Inr update, w')"
  shows "\<exists>r1 r2.
      retrieve_contexts env state w =
        (Inr [''[Uploaded PDFs]\<newline>'' @ r1, ''[S3 Documents]\<newline>'' @ r2], w')
    \<and> update = [(''context'',
         JStr (''[Uploaded PDFs]\<newline>'' @ r1 @ ''\<newline>\<newline>'' @ ''[S3 Documents]\<newline>'' @ r2))]"
proof -
  from assms(3) obtain contexts where
    c: "retrieve_contexts env state w = (Inr contexts, w')" and
    u: "update = [(''context'', JStr (if contexts \<noteq> [] then str_join ''\<newline>\<newline>'' contexts
                                       else ''No context available.''))]"
    unfolding retrieve_result by blast
  from retrieve_contexts_both [OF assms(1,2) c] obtain r1 r2 where
    "contexts = [''[Uploaded PDFs]\<newline>'' @ r1, ''[S3 Documents]\<newline>'' @ r2]" by blast
  with c u show ?thesis by (intro exI [of _ r1] exI [of _ r2]) simp
qed

lemma demo_retrieve_both:
  "fst (retrieve demo_env demo_state (demo_world [''docstore.json''])) =
     Inr [(''context'', JStr ''[Uploaded PDFs]\<newline>hi\<newline>\<newline>[S3 Documents]\<newline>stored'')]"
  by code_simp

theorem retrieve_order_witness:
  "truthy (dict_get demo_state ''pdf_files'' JNull)
   \<and> truthy (dict_get demo_state ''use_s3'' (JBool True))
   \<and> fst (retrieve demo_env demo_state (demo_world [''docstore.json''])) =
       Inr [(''context'', JStr ''[Uploaded PDFs]\<newline>hi\<newline>\<newline>[S3 Documents]\<newline>stored'')]
   \<and> (\<exists>r1 r2. fst (retrieve_contexts demo_env demo_state (demo_world [''docstore.json''])) =
         Inr [''[Uploaded PDFs]\<newline>'' @ r1, ''[S3 Documents]\<newline>'' @ r2])"
proof -
  let ?w = "demo_world [''docstore.json'']"
  have p: "truthy (dict_get demo_state ''pdf_files'' JNull)"
    by (simp add: demo_state_def demo_upload_def request_state_def dict_get_def)
  have s: "truthy (dict_get demo_state ''use_s3'' (JBool True))"
    by (simp add: demo_state_def demo_upload_def request_state_def dict_get_def)
  have r: "retrieve demo_env demo_state ?w =
      (Inr [(''context'', JStr ''[Uploaded PDFs]\<newline>hi\<newline>\<newline>[S3 Documents]\<newline>stored'')],
       snd (retrieve demo_env demo_state ?w))"
    using demo_retrieve_both by (metis prod.collapse)
  from retrieve_order [OF p s r] obtain r1 r2 where
    "retrieve_contexts demo_env demo_state ?w =
       (Inr [''[Uploaded PDFs]\<newline>'' @ r1, ''[S3 Documents]\<newline>'' @ r2],
        snd (retrieve demo_env demo_state ?w))" by blast
  then have "\<exists>r1 r2. fst (retrieve_contexts demo_env demo_state ?w) =
      Inr [''[Uploaded PDFs]\<newline>'' @ r1, ''[S3 Documents]\<newline>'' @ r2]"
    by (metis fst_conv)
  with p s demo_retrieve_both show ?thesis by blast
qed

subsection \<open>C2: the context is never empty\<close>

text \<open>
  C2. The context a retrieval returns is a non-empty string; when no fragment was collected
  it is exactly the sentinel \<^verbatim>\<open>No context available.\<close>, which is the case whenever the state
  has no uploaded documents and a false persistent-corpus flag (then the retrieval returns
  at once, the world untouched). So in every run of the graph the state the generate node
  is invoked on has a non-empty context.
\<close>

theorem retrieve_context_nonempty:
  "(retrieve env state w = (Inr update, w') \<longrightarrow>
      (\<exists>c. update = [(''context'', JStr c)] \<and> c \<noteq> []
         \<and> (retrieve_contexts env state w = (Inr [], w') \<longrightarrow> c = ''No context available.'')))
   \<and> (\<not> truthy (dict_get state ''pdf_files'' JNull) \<and> \<not> truthy (dict_get state ''use_s3'' (JBool True))
        \<longrightarrow> retrieve env state w = (Inr [(''context'', JStr ''No context available.'')], w))
   \<and> (rag_graph_invoke env state w = (r, w2)
        \<and> Node ''generate'' s \<in> set (drop (length (trace w)) (trace w2))
        \<longrightarrow> (\<exists>c. dict_getitem s ''context'' = Inr (JStr c) \<and> c \<noteq> []))"
proof (intro conjI impI)
  assume a: "retrieve env state w = (Inr update, w')"
  from retrieve_nonempty [OF a] obtain c where c: "update = [(''context'', JStr c)]" "c \<noteq> []"
    by blast
  have "retrieve_contexts env state w = (Inr [], w') \<longrightarrow> c = ''No context available.''"
    using a c(1) by (auto simp: retrieve_result)
  with c show "\<exists>c. update = [(''context'', JStr c)] \<and> c \<noteq> []
         \<and> (retrieve_contexts env state w = (Inr [], w') \<longrightarrow> c = ''No context available.'')"
    by blast
next
  assume "\<not> truthy (dict_get state ''pdf_files'' JNull) \<and> \<not> truthy (dict_get state ''use_s3'' (JBool True))"
  then have "retrieve_contexts env state w = (Inr [], w)" by (simp add: retrieve_contexts_neither)
  then show "retrieve env state w = (Inr [(''context'', JStr ''No context available.'')], w)"
    by (simp add: retrieve_result)
next
  assume "rag_graph_invoke env state w = (r, w2)
        \<and> Node ''generate'' s \<in> set (drop (length (trace w)) (trace w2))"
  then obtain upd w0 w1 where u: "retrieve env state w0 = (Inr upd, w1)" "s = dict_merge state upd"
    using generate_receives by blast
  from retrieve_nonempty [OF u(1)] obtain c where "upd = [(''context'', JStr c)]" "c \<noteq> []" by blast
  with u(2) show "\<exists>c. dict_getitem s ''context'' = Inr (JStr c) \<and> c \<noteq> []"
    by (auto simp: dict_getitem_merge_same)
qed

lemma demo_plain_generate:
  "Node ''generate'' (dict_merge demo_plain_state [(''context'', JStr ''No context available.'')])
     \<in> set (drop (length (trace (demo_world [])))
          (trace (snd (rag_graph_invoke demo_env demo_plain_state (demo_world [])))))"
  by code_simp

theorem retrieve_context_nonempty_witness:
  "\<not> truthy (dict_get demo_plain_state ''pdf_files'' JNull)
   \<and> \<not> truthy (dict_get demo_plain_state ''use_s3'' (JBool True))
   \<and> retrieve demo_env demo_plain_state (demo_world []) =
       (Inr [(''context'', JStr ''No context available.'')], demo_world [])
   \<and> Node ''generate'' (dict_merge demo_plain_state [(''context'', JStr ''No context available.'')])
       \<in> set (drop (length (trace (demo_world [])))
            (trace (snd (rag_graph_invoke demo_env demo_plain_state (demo_world [])))))
   \<and> (\<exists>c. dict_getitem
            (dict_merge demo_plain_state [(''context'', JStr ''No context available.'')])
            ''context'' = Inr (JStr c) \<and> c \<noteq> [])"
proof -
  let ?w = "demo_world []"
  let ?s = "dict_merge demo_plain_state [(''context'', JStr ''No context available.'')]"
  have h: "\<not> truthy (dict_get demo_plain_state ''pdf_files'' JNull)
      \<and> \<not> truthy (dict_get demo_plain_state ''use_s3'' (JBool True))"
    by (simp add: demo_plain_state_def request_state_def dict_get_def)
  have g: "rag_graph_invoke demo_env demo_plain_state ?w =
      (fst (rag_graph_invoke demo_env demo_plain_state ?w),
       snd (rag_graph_invoke demo_env demo_plain_state ?w))
    \<and> Node ''generate'' ?s \<in> set (drop (length (trace ?w))
          (trace (snd (rag_graph_invoke demo_env demo_plain_state ?w))))"
    using demo_plain_generate by simp
  note t = retrieve_context_nonempty [of demo_env demo_plain_state ?w
      "[(''context'', JStr ''No context available.'')]" ?w
      "fst (rag_graph_invoke demo_env demo_plain_state ?w)"
      "snd (rag_graph_invoke demo_env demo_plain_state ?w)" ?s]
  from t h have r: "retrieve demo_env demo_plain_state ?w =
       (Inr [(''context'', JStr ''No context available.'')], ?w)" by blast
  from t g have "\<exists>c. dict_getitem ?s ''context'' = Inr (JStr c) \<and> c \<noteq> []" by blast
  with h r demo_plain_generate show ?thesis by blast
qed

subsection \<open>C3: the fragment of the uploads\<close>

text \<open>
  C3, as claimed: the \<^verbatim>\<open>[Uploaded PDFs]\<close> fragment is appended only if the result of
  querying the ephemeral index is non-empty. The code has no such test. Here the upload is
  an empty file, the query on its index renders the empty string, and the context is the
  label alone, not the sentinel.
\<close>

theorem retrieve_empty_result_counterexample:
  "query demo_env [[]] 3 (JStr ''What is RAG?'') ([], []) = (Inr [], ([], []))
   \<and> retrieve demo_env demo_blank_state (demo_world []) =
       (Inr [(''context'', JStr ''[Uploaded PDFs]\<newline>'')],
        \<lparr>ext = ([], []), tmp_dirs = [],
         trace = [Print ''---BUILDING INDEX FROM 1 UPLOADED PDF(S)---'', Mkdtemp,
           OpenWb ''/tmp/tmpq1/a.pdf'', Write ''/tmp/tmpq1/a.pdf'' [], Close ''/tmp/tmpq1/a.pdf'',
           LoadData ''/tmp/tmpq1'' [''.pdf''], FromDocuments [[]], Rmtree ''/tmp/tmpq1'' True,
           Query [[]] 3 (JStr ''What is RAG?'')]\<rparr>)"
  by code_simp

text \<open>
  C3, amended. When the state has uploaded documents and the retrieval collects its
  fragments without an exception, the ephemeral index was built from \<^verbatim>\<open>pdf_files\<close>, it was
  queried with the question for the top 3, and the first fragment is the label
  \<^verbatim>\<open>[Uploaded PDFs]\<close>, a newline and the rendered result of that query, whatever the result
  is: an empty result gives the fragment that is the label line alone.
\<close>

theorem retrieve_uploads_fragment:
  assumes "truthy (dict_get state ''pdf_files'' JNull)"
    and "retrieve_contexts env state w = (Inr contexts, w')"
  shows "\<exists>pdf_files pdf_index w1 question result x.
      dict_getitem state ''pdf_files'' = Inr pdf_files
    \<and> build_pdf_index env pdf_files w = (Inr pdf_index, w1)
    \<and> dict_getitem state ''question'' = Inr question
    \<and> query env pdf_index 3 question (ext w1) = (Inr result, x)
    \<and> contexts \<noteq> [] \<and> hd contexts = ''[Uploaded PDFs]\<newline>'' @ result"
proof -
  from assms obtain cs w0 where
    b: "and_then (lift (dict_getitem state ''pdf_files'')) (\<lambda>pdf_files.
          and_then (build_pdf_index env pdf_files) (\<lambda>pdf_index.
          and_then (lift (dict_getitem state ''question'')) (\<lambda>question.
          and_then (call (Query pdf_index 3 question) (query env pdf_index 3 question)) (\<lambda>result.
          succeed ([] @ [''[Uploaded PDFs]\<newline>'' @ result]))))) w = (Inr cs, w0)" and
    h: "hd contexts = hd cs \<or> cs = []" "cs \<noteq> [] \<longrightarrow> contexts \<noteq> []"
    unfolding retrieve_contexts_def and_then_Inr [of _ _ w contexts w']
    by (auto simp: and_then_Inr split: if_splits)
  from uploads_branch [OF b] obtain pdf_files pdf_index w1 question result x where
    f: "dict_getitem state ''pdf_files'' = Inr pdf_files"
    "build_pdf_index env pdf_files w = (Inr pdf_index, w1)"
    "dict_getitem state ''question'' = Inr question"
    "query env pdf_index 3 question (ext w1) = (Inr result, x)"
    "cs = [''[Uploaded PDFs]\<newline>'' @ result]" by blast
  from f(5) h have "contexts \<noteq> [] \<and> hd contexts = ''[Uploaded PDFs]\<newline>'' @ result"
    by (metis list.sel(1) not_Cons_self2)
  with f(1-4) show ?thesis by blast
qed

lemma demo_blank_contexts:
  "fst (retrieve_contexts demo_env demo_blank_state (demo_world [])) = Inr [''[Uploaded PDFs]\<newline>'']"
  by code_simp

theorem retrieve_uploads_fragment_witness:
  "truthy (dict_get demo_blank_state ''pdf_files'' JNull)
   \<and> fst (retrieve_contexts demo_env demo_blank_state (demo_world [])) = Inr [''[Uploaded PDFs]\<newline>'']
   \<and> (\<exists>pdf_files pdf_index w1 question result x.
        dict_getitem demo_blank_state ''pdf_files'' = Inr pdf_files
      \<and> build_pdf_index demo_env pdf_files (demo_world []) = (Inr pdf_index, w1)
      \<and> dict_getitem demo_blank_state ''question'' = Inr question
      \<and> query demo_env pdf_index 3 question (ext w1) = (Inr result, x)
      \<and> hd [''[Uploaded PDFs]\<newline>''] = ''[Uploaded PDFs]\<newline>'' @ result)"
proof -
  let ?w = "demo_world []"
  have p: "truthy (dict_get demo_blank_state ''pdf_files'' JNull)"
    by (simp add: demo_blank_state_def request_state_def dict_get_def)
  have c: "retrieve_contexts demo_env demo_blank_state ?w =
      (Inr [''[Uploaded PDFs]\<newline>''], snd (retrieve_contexts demo_env demo_blank_state ?w))"
    using demo_blank_contexts by (metis prod.collapse)
  from retrieve_uploads_fragment [OF p c] p demo_blank_contexts show ?thesis by blast
qed

subsection \<open>C4: load the snapshot or build it\<close>

text \<open>
  C4. Let the listing of the snapshot directory return \<open>entries\<close>. When it is not empty,
  \<^verbatim>\<open>get_s3_index\<close> does exactly three things, the listing, a print and the load of the index
  from the snapshot, and returns what the load returned: object storage is not contacted.
  When it is empty, object storage is fetched from, and a call that returns an index has
  fetched the documents, built that index from them and persisted it to the snapshot
  directory, in this order and with nothing after the persist.
\<close>

theorem get_s3_index_snapshot:
  assumes "storage_iterdir env (ext w) = (Inr entries, x)"
  shows "(entries \<noteq> [] \<longrightarrow>
       (\<exists>r x'. load_index_from_storage env x = (r, x')
          \<and> get_s3_index env w =
              (r, w\<lparr>ext := x', trace := trace w @
                 [Iterdir, Print ''---LOADING INDEX FROM LOCAL STORAGE---'', LoadIndexFromStorage]\<rparr>))
       \<and> S3LoadData \<notin> set (drop (length (trace w)) (trace (snd (get_s3_index env w)))))
   \<and> (entries = [] \<longrightarrow>
       S3LoadData \<in> set (drop (length (trace w)) (trace (snd (get_s3_index env w))))
       \<and> (\<forall>index w'. get_s3_index env w = (Inr index, w') \<longrightarrow>
           (\<exists>documents x1 x2 x3.
               s3_load_data env x = (Inr documents, x1)
             \<and> from_documents env documents x1 = (Inr index, x2)
             \<and> persist env index x2 = (Inr (), x3)
             \<and> w' = w\<lparr>ext := x3, trace := trace w @
                 [Iterdir, Print ''---PULLING PAPERS FROM S3 AND CREATING INDEX---'',
                  S3LoadData, FromDocuments documents, Persist index]\<rparr>)))"
proof (intro conjI impI allI)
  assume ne: "entries \<noteq> []"
  obtain r x' where l: "load_index_from_storage env x = (r, x')"
    by (cases "load_index_from_storage env x")
  have g: "get_s3_index env w =
              (r, w\<lparr>ext := x', trace := trace w @
                 [Iterdir, Print ''---LOADING INDEX FROM LOCAL STORAGE---'', LoadIndexFromStorage]\<rparr>)"
    using assms ne l by (simp add: get_s3_index_def and_then_def call_def emit_def)
  with l show "\<exists>r x'. load_index_from_storage env x = (r, x')
          \<and> get_s3_index env w =
              (r, w\<lparr>ext := x', trace := trace w @
                 [Iterdir, Print ''---LOADING INDEX FROM LOCAL STORAGE---'', LoadIndexFromStorage]\<rparr>)"
    by blast
  from g show "S3LoadData \<notin> set (drop (length (trace w)) (trace (snd (get_s3_index env w))))"
    by simp
next
  assume e: "entries = []"
  show "S3LoadData \<in> set (drop (length (trace w)) (trace (snd (get_s3_index env w))))"
    using assms e
    by (simp add: get_s3_index_def and_then_def call_def emit_def succeed_def
        split: prod.splits sum.splits)
next
  fix index w'
  assume e: "entries = []" and g: "get_s3_index env w = (Inr index, w')"
  show "\<exists>documents x1 x2 x3.
               s3_load_data env x = (Inr documents, x1)
             \<and> from_documents env documents x1 = (Inr index, x2)
             \<and> persist env index x2 = (Inr (), x3)
             \<and> w' = w\<lparr>ext := x3, trace := trace w @
                 [Iterdir, Print ''---PULLING PAPERS FROM S3 AND CREATING INDEX---'',
                  S3LoadData, FromDocuments documents, Persist index]\<rparr>"
    using assms e g
    by (auto simp: get_s3_index_def and_then_Inr call_Inr emit_def)
qed

lemma demo_build_snapshot:
  "get_s3_index demo_env (demo_world []) =
     (Inr [''paper''],
      \<lparr>ext = ([], [''docstore.json'']), tmp_dirs = [],
       trace = [Iterdir, Print ''---PULLING PAPERS FROM S3 AND CREATING INDEX---'',
         S3LoadData, FromDocuments [''paper''], Persist [''paper'']]\<rparr>)"
  by code_simp

theorem get_s3_index_snapshot_witness:
  "storage_iterdir demo_env (ext (demo_world [''docstore.json''])) =
     (Inr [''docstore.json''], ([], [''docstore.json'']))
   \<and> get_s3_index demo_env (demo_world [''docstore.json'']) =
       (Inr [''stored''],
        \<lparr>ext = ([], [''docstore.json'']), tmp_dirs = [],
         trace = [Iterdir, Print ''---LOADING INDEX FROM LOCAL STORAGE---'', LoadIndexFromStorage]\<rparr>)
   \<and> storage_iterdir demo_env (ext (demo_world [])) = (Inr [], ([], []))
   \<and> get_s3_index demo_env (demo_world []) =
       (Inr [''paper''],
        \<lparr>ext = ([], [''docstore.json'']), tmp_dirs = [],
         trace = [Iterdir, Print ''---PULLING PAPERS FROM S3 AND CREATING INDEX---'',
           S3LoadData, FromDocuments [''paper''], Persist [''paper'']]\<rparr>)
   \<and> s3_load_data demo_env ([], []) = (Inr [''paper''], ([], []))
   \<and> from_documents demo_env [''paper''] ([], []) = (Inr [''paper''], ([], []))
   \<and> persist demo_env [''paper''] ([], []) = (Inr (), ([], [''docstore.json'']))"
proof -
  let ?w = "demo_world [''docstore.json'']"
  have i1: "storage_iterdir demo_env (ext ?w) = (Inr [''docstore.json''], ([], [''docstore.json'']))"
    by (simp add: demo_env_def demo_world_def)
  have i2: "storage_iterdir demo_env (ext (demo_world [])) = (Inr [], ([], []))"
    by (simp add: demo_env_def demo_world_def)
  from get_s3_index_snapshot [OF i1] obtain r x' where
    "load_index_from_storage demo_env ([], [''docstore.json'']) = (r, x')"
    "get_s3_index demo_env ?w =
       (r, ?w\<lparr>ext := x', trace := trace ?w @
          [Iterdir, Print ''---LOADING INDEX FROM LOCAL STORAGE---'', LoadIndexFromStorage]\<rparr>)"
    by blast
  then have g1: "get_s3_index demo_env ?w =
       (Inr [''stored''],
        \<lparr>ext = ([], [''docstore.json'']), tmp_dirs = [],
         trace = [Iterdir, Print ''---LOADING INDEX FROM LOCAL STORAGE---'', LoadIndexFromStorage]\<rparr>)"
    by (auto simp: demo_env_def demo_world_def)
  from get_s3_index_snapshot [OF i2] demo_build_snapshot obtain documents x1 x2 x3 where
    "s3_load_data demo_env ([], []) = (Inr documents, x1)"
    "from_documents demo_env documents x1 = (Inr [''paper''], x2)"
    "persist demo_env [''paper''] x2 = (Inr (), x3)"
    by blast
  then have "s3_load_data demo_env ([], []) = (Inr [''paper''], ([], []))
     \<and> from_documents demo_env [''paper''] ([], []) = (Inr [''paper''], ([], []))
     \<and> persist demo_env [''paper''] ([], []) = (Inr (), ([], [''docstore.json'']))"
    by (auto simp: demo_env_def)
  with i1 i2 g1 demo_build_snapshot show ?thesis by blast
qed

subsection \<open>C5: the temporary directory is removed on every path\<close>

text \<open>
  C5. Once \<^verbatim>\<open>tempfile.mkdtemp\<close> has returned a directory \<open>d\<close>, whatever the body of the
  \<^verbatim>\<open>try\<close> does, return an index or raise (while reading a field, decoding, opening, writing,
  closing, reading the directory or indexing), \<^verbatim>\<open>build_pdf_index\<close> ends with the call
  \<^verbatim>\<open>shutil.rmtree(d, ignore_errors=True)\<close>: it is the last event of the trace, after the
  events of the body; the outcome of \<^verbatim>\<open>build_pdf_index\<close> is the outcome \<open>r\<close> of the body
  whatever the removal did, so a failure of the removal is not raised; and when the removal
  did not fail, \<open>d\<close> is no longer among the existing temporary directories.
\<close>

theorem build_pdf_index_cleanup:
  assumes "py_len pdf_files = Inr n" and "mkdtemp env (ext w) = (Inr d, x)"
  shows "\<exists>r w2 rm x'.
      build_pdf_index_body env d pdf_files
        (w\<lparr>ext := x,
           trace := trace w @
             [Print (''---BUILDING INDEX FROM '' @ str_of_nat n @ '' UPLOADED PDF(S)---''), Mkdtemp],
           tmp_dirs := d # tmp_dirs w\<rparr>)
        = (r, w2)
    \<and> remove_tree env d (ext w2) = (rm, x')
    \<and> fst (build_pdf_index env pdf_files w) = r
    \<and> trace (snd (build_pdf_index env pdf_files w)) = trace w2 @ [Rmtree d True]
    \<and> (rm = Inr () \<longrightarrow> d \<notin> set (tmp_dirs (snd (build_pdf_index env pdf_files w))))"
proof -
  let ?w1 = "w\<lparr>ext := x,
           trace := trace w @
             [Print (''---BUILDING INDEX FROM '' @ str_of_nat n @ '' UPLOADED PDF(S)---''), Mkdtemp],
           tmp_dirs := d # tmp_dirs w\<rparr>"
  obtain r w2 where b: "build_pdf_index_body env d pdf_files ?w1 = (r, w2)"
    by (cases "build_pdf_index_body env d pdf_files ?w1")
  obtain rm x' where rm: "remove_tree env d (ext w2) = (rm, x')"
    by (cases "remove_tree env d (ext w2)")
  have "build_pdf_index env pdf_files w =
      try_finally (build_pdf_index_body env d pdf_files) (shutil_rmtree env d True) ?w1"
    using assms
    by (simp add: build_pdf_index_def and_then_def lift_def emit_def tempfile_mkdtemp_def call_def)
  with try_finally_rmtree [of "build_pdf_index_body env d pdf_files" ?w1 r w2 env d, OF b] have
    e: "build_pdf_index env pdf_files w = (r, snd (shutil_rmtree env d True w2))" by simp
  from e shutil_rmtree_world [OF rm] b rm show ?thesis by auto
qed

lemma demo_bad_upload_raises:
  "fst (build_pdf_index demo_env demo_bad_upload (demo_world [])) = Inl (Raised ''binascii.Error'')"
  "fst (build_pdf_index demo_env_stuck demo_bad_upload (demo_world [])) = Inl (Raised ''binascii.Error'')"
  "fst (build_pdf_index demo_env demo_upload (demo_world [])) = Inr [''hi'']"
  by code_simp+

lemma demo_remove_tree: "fst (remove_tree demo_env d y) = Inr ()"
  by (simp add: demo_env_def)

theorem build_pdf_index_cleanup_witness:
  "py_len demo_bad_upload = Inr 1
   \<and> mkdtemp demo_env (ext (demo_world [])) = (Inr ''/tmp/tmpq1'', ([], []))
   \<and> fst (build_pdf_index demo_env demo_bad_upload (demo_world [])) = Inl (Raised ''binascii.Error'')
   \<and> last (trace (snd (build_pdf_index demo_env demo_bad_upload (demo_world [])))) =
       Rmtree ''/tmp/tmpq1'' True
   \<and> ''/tmp/tmpq1'' \<notin> set (tmp_dirs (snd (build_pdf_index demo_env demo_bad_upload (demo_world []))))
   \<and> py_len demo_upload = Inr 1
   \<and> fst (build_pdf_index demo_env demo_upload (demo_world [])) = Inr [''hi'']
   \<and> last (trace (snd (build_pdf_index demo_env demo_upload (demo_world [])))) =
       Rmtree ''/tmp/tmpq1'' True
   \<and> ''/tmp/tmpq1'' \<notin> set (tmp_dirs (snd (build_pdf_index demo_env demo_upload (demo_world []))))
   \<and> mkdtemp demo_env_stuck (ext (demo_world [])) = (Inr ''/tmp/tmpq1'', ([], []))
   \<and> fst (build_pdf_index demo_env_stuck demo_bad_upload (demo_world [])) =
       Inl (Raised ''binascii.Error'')
   \<and> last (trace (snd (build_pdf_index demo_env_stuck demo_bad_upload (demo_world [])))) =
       Rmtree ''/tmp/tmpq1'' True"
proof -
  let ?w = "demo_world []"
  let ?d = "''/tmp/tmpq1''"
  have l1: "py_len demo_bad_upload = Inr 1" by (simp add: demo_bad_upload_def)
  have l2: "py_len demo_upload = Inr 1" by (simp add: demo_upload_def)
  have m1: "mkdtemp demo_env (ext ?w) = (Inr ?d, ([], []))"
    by (simp add: demo_env_def demo_world_def)
  have m2: "mkdtemp demo_env_stuck (ext ?w) = (Inr ?d, ([], []))"
    by (simp add: demo_env_stuck_def demo_env_def demo_world_def)
  have a: "last (trace (snd (build_pdf_index demo_env pdfs ?w))) = Rmtree ?d True
      \<and> ?d \<notin> set (tmp_dirs (snd (build_pdf_index demo_env pdfs ?w)))"
    if l: "py_len pdfs = Inr 1" for pdfs
  proof -
    from build_pdf_index_cleanup [OF l m1]
    obtain r rm x' and w2 :: "(demo_ext, string, string list) world" where
      f: "remove_tree demo_env ?d (ext w2) = (rm, x')
        \<and> fst (build_pdf_index demo_env pdfs ?w) = r
        \<and> trace (snd (build_pdf_index demo_env pdfs ?w)) = trace w2 @ [Rmtree ?d True]
        \<and> (rm = Inr () \<longrightarrow> ?d \<notin> set (tmp_dirs (snd (build_pdf_index demo_env pdfs ?w))))"
      by blast
    from f demo_remove_tree [of ?d "ext w2"] have "rm = Inr ()" by simp
    with f show ?thesis by simp
  qed
  from build_pdf_index_cleanup [OF l1 m2]
  obtain w2 :: "(demo_ext, string, string list) world" where
    "trace (snd (build_pdf_index demo_env_stuck demo_bad_upload ?w)) = trace w2 @ [Rmtree ?d True]"
    by blast
  then have
    c: "last (trace (snd (build_pdf_index demo_env_stuck demo_bad_upload ?w))) = Rmtree ?d True"
    by simp
  from l1 l2 m1 m2 a [OF l1] a [OF l2] c demo_bad_upload_raises show ?thesis by blast
qed

subsection \<open>C6: a request without a question\<close>

text \<open>
  C6. When the body is an object whose \<^verbatim>\<open>question\<close> is missing or is the empty string, the
  handler answers 400 with the body \<^verbatim>\<open>{"error": "No question provided"}\<close> and leaves the world
  as it was: no call was made and the trace did not grow, whereas every invocation of the
  graph extends the trace (with the retrieve node, at least). So the graph was not invoked.
\<close>

theorem get_response_no_question:
  assumes "map_of kvs ''question'' = None \<or> map_of kvs ''question'' = Some (JStr [])"
  shows "get_response env (JObj kvs) w =
      (Inr \<lparr>status = 400, body = JObj [(''error'', JStr ''No question provided'')]\<rparr>, w)
    \<and> trace (snd (get_response env (JObj kvs) w)) = trace w
    \<and> trace (snd (rag_graph_invoke env input w)) \<noteq> trace w"
proof -
  have "get_response env (JObj kvs) w =
      (Inr \<lparr>status = 400, body = JObj [(''error'', JStr ''No question provided'')]\<rparr>, w)"
    using assms by (auto simp: get_response_def)
  then show ?thesis by (simp add: rag_graph_invoke_marks)
qed

theorem get_response_no_question_witness:
  "map_of ([] :: dict) ''question'' = None
   \<and> get_response demo_env (JObj []) (demo_world []) =
      (Inr \<lparr>status = 400, body = JObj [(''error'', JStr ''No question provided'')]\<rparr>, demo_world [])
   \<and> map_of [(''question'', JStr [])] ''question'' = Some (JStr [])
   \<and> get_response demo_env (JObj [(''question'', JStr [])]) (demo_world []) =
      (Inr \<lparr>status = 400, body = JObj [(''error'', JStr ''No question provided'')]\<rparr>, demo_world [])"
  using get_response_no_question [of "[]" demo_env "demo_world []"]
    get_response_no_question [of "[(''question'', JStr [])]" demo_env "demo_world []"]
  by simp

subsection \<open>C7: the default of the persistent-corpus flag\<close>

text \<open>
  C7. Let the body be an object with a truthy question \<open>q\<close>. The graph is invoked, and the
  state it is invoked on (the state of the first event the handler adds to the trace, the
  retrieve node) has the flag \<^verbatim>\<open>use_s3\<close> true and no upload when the body has no \<^verbatim>\<open>use_s3\<close> and
  its \<^verbatim>\<open>pdf_files\<close> is absent or the empty list; it has the flag false when the body has no
  \<^verbatim>\<open>use_s3\<close> and \<^verbatim>\<open>pdf_files\<close> is a non-empty list; and it has the value \<open>u\<close> of \<^verbatim>\<open>use_s3\<close>,
  unchanged, when the body has one.
\<close>

theorem get_response_flag:
  assumes "map_of kvs ''question'' = Some q" and "truthy q"
  shows
   "(map_of kvs ''use_s3'' = None \<and>
       (map_of kvs ''pdf_files'' = None \<or> map_of kvs ''pdf_files'' = Some (JArr [])) \<longrightarrow>
       trace (snd (get_response env (JObj kvs) w)) ! length (trace w) =
         Node ''retrieve'' (request_state q (JArr []) (JBool True)))
  \<and> (map_of kvs ''use_s3'' = None \<and> map_of kvs ''pdf_files'' = Some (JArr (p # ps)) \<longrightarrow>
       trace (snd (get_response env (JObj kvs) w)) ! length (trace w) =
         Node ''retrieve'' (request_state q (JArr (p # ps)) (JBool False)))
  \<and> (map_of kvs ''use_s3'' = Some u \<longrightarrow>
       trace (snd (get_response env (JObj kvs) w)) ! length (trace w) =
         Node ''retrieve''
           (request_state q (case map_of kvs ''pdf_files'' of None \<Rightarrow> JArr [] | Some p \<Rightarrow> p) u))"
  by (auto simp: get_response_invokes [OF assms] rag_graph_invoke_first)

theorem get_response_flag_witness:
  "truthy (JStr ''What is RAG?'')
   \<and> trace (snd (get_response demo_env (JObj [(''question'', JStr ''What is RAG?'')])
        (demo_world [''docstore.json'']))) ! length (trace (demo_world [''docstore.json''])) =
       Node ''retrieve'' (request_state (JStr ''What is RAG?'') (JArr []) (JBool True))
   \<and> trace (snd (get_response demo_env
        (JObj [(''question'', JStr ''What is RAG?''), (''pdf_files'', JArr [])])
        (demo_world [''docstore.json'']))) ! length (trace (demo_world [''docstore.json''])) =
       Node ''retrieve'' (request_state (JStr ''What is RAG?'') (JArr []) (JBool True))
   \<and> trace (snd (get_response demo_env
        (JObj [(''question'', JStr ''What is RAG?''), (''pdf_files'', demo_upload)])
        (demo_world [''docstore.json'']))) ! length (trace (demo_world [''docstore.json''])) =
       Node ''retrieve'' (request_state (JStr ''What is RAG?'') demo_upload (JBool False))
   \<and> trace (snd (get_response demo_env
        (JObj [(''question'', JStr ''What is RAG?''), (''pdf_files'', demo_upload),
               (''use_s3'', JNull)])
        (demo_world [''docstore.json'']))) ! length (trace (demo_world [''docstore.json''])) =
       Node ''retrieve'' (request_state (JStr ''What is RAG?'') demo_upload JNull)"
proof -
  let ?q = "JStr ''What is RAG?''"
  let ?w = "demo_world [''docstore.json'']"
  have t: "truthy ?q" by simp
  have u: "demo_upload = JArr (JObj [(''name'', JStr ''a.pdf''), (''data'', JStr ''aGk='')] # [])"
    by (simp add: demo_upload_def)
  have 1: "map_of [(''question'', ?q)] ''question'' = Some ?q" by simp
  have 2: "map_of [(''question'', ?q), (''pdf_files'', JArr [])] ''question'' = Some ?q" by simp
  have 3: "map_of [(''question'', ?q), (''pdf_files'', demo_upload)] ''question'' = Some ?q"
    by simp
  have 4: "map_of [(''question'', ?q), (''pdf_files'', demo_upload), (''use_s3'', JNull)]
      ''question'' = Some ?q" by simp
  from get_response_flag [OF 1 t, of demo_env ?w] have a:
    "trace (snd (get_response demo_env (JObj [(''question'', ?q)]) ?w)) ! length (trace ?w) =
       Node ''retrieve'' (request_state ?q (JArr []) (JBool True))" by simp
  from get_response_flag [OF 2 t, of demo_env ?w] have b:
    "trace (snd (get_response demo_env (JObj [(''question'', ?q), (''pdf_files'', JArr [])]) ?w))
        ! length (trace ?w) =
       Node ''retrieve'' (request_state ?q (JArr []) (JBool True))" by simp
  from get_response_flag [OF 3 t, of demo_env ?w
      "JObj [(''name'', JStr ''a.pdf''), (''data'', JStr ''aGk='')]" "[]"] u have c:
    "trace (snd (get_response demo_env (JObj [(''question'', ?q), (''pdf_files'', demo_upload)]) ?w))
        ! length (trace ?w) =
       Node ''retrieve'' (request_state ?q demo_upload (JBool False))" by simp
  from get_response_flag [OF 4 t, of demo_env ?w _ _ JNull] have d:
    "trace (snd (get_response demo_env
        (JObj [(''question'', ?q), (''pdf_files'', demo_upload), (''use_s3'', JNull)]) ?w))
        ! length (trace ?w) =
       Node ''retrieve'' (request_state ?q demo_upload JNull)" by simp
  from t a b c d show ?thesis by blast
qed

subsection \<open>C8: an upload that is not base64\<close>

text \<open>
  C8, as claimed: with one uploaded file whose data does not decode and \<^verbatim>\<open>use_s3\<close> false, the
  file is skipped, the context is the sentinel and the generation proceeds. Here the data
  is \<^verbatim>\<open>abc\<close>: the decoder raises, the exception leaves \<^verbatim>\<open>build_pdf_index\<close>, \<^verbatim>\<open>retrieve\<close>, the
  graph and the handler, and the trace ends with the removal of the temporary directory:
  the generate node was not invoked and the language model was not called.
\<close>

theorem get_response_undecodable_counterexample:
  "b64decode demo_env ''abc'' = Inl (Raised ''binascii.Error'')
   \<and> get_response demo_env (JObj demo_bad_request) (demo_world []) =
       (Inl (Raised ''binascii.Error''),
        \<lparr>ext = ([], []), tmp_dirs = [],
         trace = [Node ''retrieve''
             (request_state (JStr ''Summarize this'') demo_bad_upload (JBool False)),
           Print ''---BUILDING INDEX FROM 1 UPLOADED PDF(S)---'', Mkdtemp,
           OpenWb ''/tmp/tmpq1/a.pdf'', Close ''/tmp/tmpq1/a.pdf'',
           Rmtree ''/tmp/tmpq1'' True]\<rparr>)"
  by code_simp

text \<open>
  C8, amended. For a request with a question, \<^verbatim>\<open>use_s3\<close> false and exactly one uploaded file,
  with a string name and a string data that the decoder rejects with the exception \<open>e\<close>:
  the handler raises, whatever the outside world does; the graph is invoked on the state
  with that upload, and after the retrieve node the trace holds events of the retrieval
  stage only, so no context is composed, the generate node is not invoked and the language
  model is not called. When the temporary directory could be made and the file opened and
  closed, the exception is \<open>e\<close> itself, nothing was written to the file, and the directory
  removal is the last event.
\<close>

theorem get_response_undecodable:
  assumes "b64decode env d = Inl e"
    and "map_of kvs ''question'' = Some q" and "truthy q"
    and "map_of kvs ''pdf_files'' = Some (JArr [JObj file])"
    and "map_of file ''name'' = Some (JStr n)" and "map_of file ''data'' = Some (JStr d)"
    and "map_of kvs ''use_s3'' = Some (JBool False)"
  shows "(\<exists>e' evs.
        fst (get_response env (JObj kvs) w) = Inl e'
      \<and> trace (snd (get_response env (JObj kvs) w)) =
          trace w @ Node ''retrieve'' (request_state q (JArr [JObj file]) (JBool False)) # evs
      \<and> list_all stage_event evs)
    \<and> (\<forall>t x1 path x2 x3.
        mkdtemp env (ext w) = (Inr t, x1) \<and> os_path_join t (JStr n) = Inr path
        \<and> open_wb env path x1 = (Inr (), x2) \<and> file_close env path x2 = (Inr (), x3) \<longrightarrow>
        fst (get_response env (JObj kvs) w) = Inl e
      \<and> trace (snd (get_response env (JObj kvs) w)) =
          trace w @ [Node ''retrieve'' (request_state q (JArr [JObj file]) (JBool False)),
            Print ''---BUILDING INDEX FROM 1 UPLOADED PDF(S)---'', Mkdtemp,
            OpenWb path, Close path, Rmtree t True])"
proof (intro conjI allI impI)
  show "\<exists>e' evs.
        fst (get_response env (JObj kvs) w) = Inl e'
      \<and> trace (snd (get_response env (JObj kvs) w)) =
          trace w @ Node ''retrieve'' (request_state q (JArr [JObj file]) (JBool False)) # evs
      \<and> list_all stage_event evs"
    by (rule undecodable_fails [OF assms])
next
  fix t x1 path x2 x3
  assume h: "mkdtemp env (ext w) = (Inr t, x1) \<and> os_path_join t (JStr n) = Inr path
        \<and> open_wb env path x1 = (Inr (), x2) \<and> file_close env path x2 = (Inr (), x3)"
  from h have h1: "mkdtemp env (ext w) = (Inr t, x1)" and h2: "os_path_join t (JStr n) = Inr path"
    and h3: "open_wb env path x1 = (Inr (), x2)" and h4: "file_close env path x2 = (Inr (), x3)"
    by blast+
  from undecodable_exact [OF assms h1 h2 h3 h4]
  show "fst (get_response env (JObj kvs) w) = Inl e" 
    and "trace (snd (get_response env (JObj kvs) w)) =
          trace w @ [Node ''retrieve'' (request_state q (JArr [JObj file]) (JBool False)),
            Print ''---BUILDING INDEX FROM 1 UPLOADED PDF(S)---'', Mkdtemp,
            OpenWb path, Close path, Rmtree t True]"
    by blast+
qed

theorem get_response_undecodable_witness:
  "b64decode demo_env ''abc'' = Inl (Raised ''binascii.Error'')
   \<and> map_of demo_bad_request ''question'' = Some (JStr ''Summarize this'')
   \<and> truthy (JStr ''Summarize this'')
   \<and> map_of demo_bad_request ''pdf_files'' =
       Some (JArr [JObj [(''name'', JStr ''a.pdf''), (''data'', JStr ''abc'')]])
   \<and> map_of demo_bad_request ''use_s3'' = Some (JBool False)
   \<and> mkdtemp demo_env (ext (demo_world [])) = (Inr ''/tmp/tmpq1'', ([], []))
   \<and> os_path_join ''/tmp/tmpq1'' (JStr ''a.pdf'') = Inr ''/tmp/tmpq1/a.pdf''
   \<and> open_wb demo_env ''/tmp/tmpq1/a.pdf'' ([], []) = (Inr (), ([(''/tmp/tmpq1/a.pdf'', [])], []))
   \<and> file_close demo_env ''/tmp/tmpq1/a.pdf'' ([(''/tmp/tmpq1/a.pdf'', [])], []) =
       (Inr (), ([(''/tmp/tmpq1/a.pdf'', [])], []))
   \<and> fst (get_response demo_env (JObj demo_bad_request) (demo_world [])) =
       Inl (Raised ''binascii.Error'')
   \<and> trace (snd (get_response demo_env (JObj demo_bad_request) (demo_world []))) =
       trace (demo_world []) @
         [Node ''retrieve'' (request_state (JStr ''Summarize this'')
            (JArr [JObj [(''name'', JStr ''a.pdf''), (''data'', JStr ''abc'')]]) (JBool False)),
          Print ''---BUILDING INDEX FROM 1 UPLOADED PDF(S)---'', Mkdtemp,
          OpenWb ''/tmp/tmpq1/a.pdf'', Close ''/tmp/tmpq1/a.pdf'', Rmtree ''/tmp/tmpq1'' True]"
proof -
  let ?file = "[(''name'', JStr ''a.pdf''), (''data'', JStr ''abc'')]"
  have 1: "b64decode demo_env ''abc'' = Inl (Raised ''binascii.Error'')"
    by (simp add: demo_env_def)
  have 2: "map_of demo_bad_request ''question'' = Some (JStr ''Summarize this'')"
    by (simp add: demo_bad_request_def)
  have 3: "truthy (JStr ''Summarize this'')" by simp
  have 4: "map_of demo_bad_request ''pdf_files'' = Some (JArr [JObj ?file])"
    by (simp add: demo_bad_request_def demo_bad_upload_def)
  have 5: "map_of ?file ''name'' = Some (JStr ''a.pdf'')" by simp
  have 6: "map_of ?file ''data'' = Some (JStr ''abc'')" by simp
  have 7: "map_of demo_bad_request ''use_s3'' = Some (JBool False)"
    by (simp add: demo_bad_request_def)
  have 8: "mkdtemp demo_env (ext (demo_world [])) = (Inr ''/tmp/tmpq1'', ([], []))"
    by (simp add: demo_env_def demo_world_def)
  have 9: "os_path_join ''/tmp/tmpq1'' (JStr ''a.pdf'') = Inr ''/tmp/tmpq1/a.pdf''"
    by simp
  have 10: "open_wb demo_env ''/tmp/tmpq1/a.pdf'' ([], []) =
      (Inr (), ([(''/tmp/tmpq1/a.pdf'', [])], []))"
    by (simp add: demo_env_def)
  have 11: "file_close demo_env ''/tmp/tmpq1/a.pdf'' ([(''/tmp/tmpq1/a.pdf'', [])], []) =
       (Inr (), ([(''/tmp/tmpq1/a.pdf'', [])], []))"
    by (simp add: demo_env_def)
  from get_response_undecodable [OF 1 2 3 4 5 6 7, of "demo_world []"] 8 9 10 11
  have "fst (get_response demo_env (JObj demo_bad_request) (demo_world [])) =
       Inl (Raised ''binascii.Error'')
   \<and> trace (snd (get_response demo_env (JObj demo_bad_request) (demo_world []))) =
       trace (demo_world []) @
         [Node ''retrieve'' (request_state (JStr ''Summarize this'') (JArr [JObj ?file]) (JBool False)),
          Print ''---BUILDING INDEX FROM 1 UPLOADED PDF(S)---'', Mkdtemp,
          OpenWb ''/tmp/tmpq1/a.pdf'', Close ''/tmp/tmpq1/a.pdf'', Rmtree ''/tmp/tmpq1'' True]"
    by blast
  with 1 2 3 4 7 8 9 10 11 show ?thesis by blast
qed

subsection \<open>C9: the prompt\<close>

text \<open>
  C9. When the state holds a text context \<open>c\<close> and a text question \<open>q\<close>, \<^verbatim>\<open>generate_answer\<close>
  prints its banner and calls the language model once, on the prompt that is the fixed
  template with \<open>c\<close> and \<open>q\<close> in it as they are. It raises what the model raises; when the
  model returns the text \<open>t\<close>, the update is the \<^verbatim>\<open>response\<close> field holding \<open>t\<close>, and \<open>t\<close> is
  the \<^verbatim>\<open>response\<close> of the state once the update is merged.
\<close>

theorem generate_answer_prompt:
  assumes "dict_getitem state ''context'' = Inr (JStr c)"
    and "dict_getitem state ''question'' = Inr (JStr q)"
  shows "\<exists>r x.
     complete env
       (''\<newline>    You are an expert research assistant. Use the provided context AND your general knowledge.\<newline>    Context: ''
         @ c @ ''\<newline>    Question: '' @ q @ ''\<newline>    Answer:'') (ext w) = (r, x)
   \<and> generate_answer env state w =
       ((case r of Inl e \<Rightarrow> Inl e | Inr t \<Rightarrow> Inr [(''response'', JStr t)]),
        w\<lparr>ext := x, trace := trace w @
            [Print ''---GENERATING FINAL ANSWER---'',
             Complete (''\<newline>    You are an expert research assistant. Use the provided context AND your general knowledge.\<newline>    Context: ''
               @ c @ ''\<newline>    Question: '' @ q @ ''\<newline>    Answer:'')]\<rparr>)
   \<and> (\<forall>t. r = Inr t \<longrightarrow>
        dict_getitem (dict_merge state [(''response'', JStr t)]) ''response'' = Inr (JStr t))"
proof -
  obtain r x where c: "complete env (prompt_of c q) (ext w) = (r, x)"
    by (cases "complete env (prompt_of c q) (ext w)")
  note g = generate_answer_unfold [OF assms c]
  show ?thesis
    using c g unfolding prompt_of_def
    by (intro exI [of _ r] exI [of _ x] conjI allI impI) (assumption | rule dict_getitem_merge_same)+
qed

theorem generate_answer_prompt_witness:
  "dict_getitem [(''question'', JStr ''What is RAG?''), (''context'', JStr ''No context available.'')]
      ''context'' = Inr (JStr ''No context available.'')
   \<and> dict_getitem [(''question'', JStr ''What is RAG?''), (''context'', JStr ''No context available.'')]
      ''question'' = Inr (JStr ''What is RAG?'')
   \<and> generate_answer demo_env
        [(''question'', JStr ''What is RAG?''), (''context'', JStr ''No context available.'')]
        (demo_world []) =
       (Inr [(''response'', JStr ''An answer.'')],
        \<lparr>ext = ([], []), tmp_dirs = [],
         trace = [Print ''---GENERATING FINAL ANSWER---'',
           Complete ''\<newline>    You are an expert research assistant. Use the provided context AND your general knowledge.\<newline>    Context: No context available.\<newline>    Question: What is RAG?\<newline>    Answer:'']\<rparr>)
   \<and> dict_getitem
        (dict_merge [(''question'', JStr ''What is RAG?''), (''context'', JStr ''No context available.'')]
           [(''response'', JStr ''An answer.'')]) ''response'' = Inr (JStr ''An answer.'')"
proof -
  let ?s = "[(''question'', JStr ''What is RAG?''), (''context'', JStr ''No context available.'')]"
  have 1: "dict_getitem ?s ''context'' = Inr (JStr ''No context available.'')"
    by (simp add: dict_getitem_def)
  have 2: "dict_getitem ?s ''question'' = Inr (JStr ''What is RAG?'')"
    by (simp add: dict_getitem_def)
  from generate_answer_prompt [OF 1 2, of demo_env "demo_world []"]
  obtain r and x :: demo_ext where
    c: "complete demo_env
       (''\<newline>    You are an expert research assistant. Use the provided context AND your general knowledge.\<newline>    Context: ''
         @ ''No context available.'' @ ''\<newline>    Question: '' @ ''What is RAG?'' @ ''\<newline>    Answer:'')
       (ext (demo_world [])) = (r, x)" and
    g: "generate_answer demo_env ?s (demo_world []) =
       ((case r of Inl e \<Rightarrow> Inl e | Inr t \<Rightarrow> Inr [(''response'', JStr t)]),
        (demo_world [])\<lparr>ext := x, trace := trace (demo_world []) @
            [Print ''---GENERATING FINAL ANSWER---'',
             Complete (''\<newline>    You are an expert research assistant. Use the provided context AND your general knowledge.\<newline>    Context: ''
               @ ''No context available.'' @ ''\<newline>    Question: '' @ ''What is RAG?'' @ ''\<newline>    Answer:'')]\<rparr>)" and
    m: "\<forall>t. r = Inr t \<longrightarrow>
        dict_getitem (dict_merge ?s [(''response'', JStr t)]) ''response'' = Inr (JStr t)"
    by blast
  from c have r: "r = Inr ''An answer.''" and x: "x = ([], [])"
    by (simp_all add: demo_env_def demo_world_def)
  from g r x have "generate_answer demo_env ?s (demo_world []) =
       (Inr [(''response'', JStr ''An answer.'')],
        \<lparr>ext = ([], []), tmp_dirs = [],
         trace = [Print ''---GENERATING FINAL ANSWER---'',
           Complete ''\<newline>    You are an expert research assistant. Use the provided context AND your general knowledge.\<newline>    Context: No context available.\<newline>    Question: What is RAG?\<newline>    Answer:'']\<rparr>)"
    by (simp add: demo_world_def)
  with 1 2 m r show ?thesis by blast
qed

subsection \<open>C10: what the nodes leave unchanged\<close>

text \<open>
  C10. The update a retrieval returns has the one key \<^verbatim>\<open>context\<close>, the update a generation
  returns has the one key \<^verbatim>\<open>response\<close>, and the state a run of the graph returns agrees with
  the state it was invoked on at \<^verbatim>\<open>question\<close>, \<^verbatim>\<open>pdf_files\<close> and \<^verbatim>\<open>use_s3\<close>, and at every key
  other than \<^verbatim>\<open>context\<close> and \<^verbatim>\<open>response\<close>.
\<close>

theorem graph_frame:
  "(retrieve env state1 w1 = (Inr update1, w1') \<longrightarrow> map fst update1 = [''context''])
   \<and> (generate_answer env state2 w2 = (Inr update2, w2') \<longrightarrow> map fst update2 = [''response''])
   \<and> (rag_graph_invoke env state w = (Inr final, w') \<longrightarrow>
        map_of final ''question'' = map_of state ''question''
      \<and> map_of final ''pdf_files'' = map_of state ''pdf_files''
      \<and> map_of final ''use_s3'' = map_of state ''use_s3''
      \<and> (\<forall>k. k \<noteq> ''context'' \<and> k \<noteq> ''response'' \<longrightarrow> map_of final k = map_of state k))"
proof (intro conjI impI)
  assume "retrieve env state1 w1 = (Inr update1, w1')"
  then show "map fst update1 = [''context'']" by (auto simp: retrieve_result)
next
  assume "generate_answer env state2 w2 = (Inr update2, w2')"
  then show "map fst update2 = [''response'']" by (auto dest: generate_answer_keys)
next
  assume a: "rag_graph_invoke env state w = (Inr final, w')"
  then obtain u1 u2 v0 v1 v2 v3 where
    r: "retrieve env state v0 = (Inr u1, v1)" and
    g: "generate_answer env (dict_merge state u1) v2 = (Inr u2, v3)" and
    f: "final = dict_merge (dict_merge state u1) u2"
    by (auto simp: rag_graph_invoke_def and_then_Inr)
  from retrieve_nonempty [OF r] obtain c where c: "u1 = [(''context'', JStr c)]" by blast
  from generate_answer_keys [OF g] obtain t where t: "u2 = [(''response'', JStr t)]" by blast
  have k: "\<forall>k. k \<noteq> ''context'' \<and> k \<noteq> ''response'' \<longrightarrow> map_of final k = map_of state k"
    using f c t by (simp add: map_of_merge_other)
  then show "map_of final ''question'' = map_of state ''question''"
    "map_of final ''pdf_files'' = map_of state ''pdf_files''"
    "map_of final ''use_s3'' = map_of state ''use_s3''"
    "\<forall>k. k \<noteq> ''context'' \<and> k \<noteq> ''response'' \<longrightarrow> map_of final k = map_of state k"
    by simp_all
qed

lemma demo_plain_results:
  "fst (retrieve demo_env demo_plain_state (demo_world [])) =
     Inr [(''context'', JStr ''No context available.'')]"
  "fst (generate_answer demo_env
     (dict_merge demo_plain_state [(''context'', JStr ''No context available.'')]) (demo_world [])) =
     Inr [(''response'', JStr ''An answer.'')]"
  "fst (rag_graph_invoke demo_env demo_plain_state (demo_world [])) =
     Inr [(''question'', JStr ''What is RAG?''), (''pdf_files'', JArr []), (''use_s3'', JBool False),
          (''context'', JStr ''No context available.''), (''response'', JStr ''An answer.'')]"
  by code_simp+

theorem graph_frame_witness:
  "fst (retrieve demo_env demo_plain_state (demo_world [])) =
     Inr [(''context'', JStr ''No context available.'')]
   \<and> map fst [(''context'', JStr ''No context available.'')] = [''context'']
   \<and> fst (generate_answer demo_env
       (dict_merge demo_plain_state [(''context'', JStr ''No context available.'')]) (demo_world [])) =
       Inr [(''response'', JStr ''An answer.'')]
   \<and> map fst [(''response'', JStr ''An answer.'')] = [''response'']
   \<and> fst (rag_graph_invoke demo_env demo_plain_state (demo_world [])) =
       Inr [(''question'', JStr ''What is RAG?''), (''pdf_files'', JArr []), (''use_s3'', JBool False),
          (''context'', JStr ''No context available.''), (''response'', JStr ''An answer.'')]
   \<and> map_of [(''question'', JStr ''What is RAG?''), (''pdf_files'', JArr []), (''use_s3'', JBool False),
          (''context'', JStr ''No context available.''), (''response'', JStr ''An answer.'')]
        ''question'' = map_of demo_plain_state ''question''
   \<and> map_of [(''question'', JStr ''What is RAG?''), (''pdf_files'', JArr []), (''use_s3'', JBool False),
          (''context'', JStr ''No context available.''), (''response'', JStr ''An answer.'')]
        ''pdf_files'' = map_of demo_plain_state ''pdf_files''
   \<and> map_of [(''question'', JStr ''What is RAG?''), (''pdf_files'', JArr []), (''use_s3'', JBool False),
          (''context'', JStr ''No context available.''), (''response'', JStr ''An answer.'')]
        ''use_s3'' = map_of demo_plain_state ''use_s3''"
proof -
  let ?w = "demo_world []"
  let ?s = "dict_merge demo_plain_state [(''context'', JStr ''No context available.'')]"
  let ?f = "[(''question'', JStr ''What is RAG?''), (''pdf_files'', JArr []), (''use_s3'', JBool False),
          (''context'', JStr ''No context available.''), (''response'', JStr ''An answer.'')]"
  have 1: "retrieve demo_env demo_plain_state ?w =
      (Inr [(''context'', JStr ''No context available.'')], snd (retrieve demo_env demo_plain_state ?w))"
    using demo_plain_results(1) by (metis prod.collapse)
  have 2: "generate_answer demo_env ?s ?w =
      (Inr [(''response'', JStr ''An answer.'')], snd (generate_answer demo_env ?s ?w))"
    using demo_plain_results(2) by (metis prod.collapse)
  have 3: "rag_graph_invoke demo_env demo_plain_state ?w =
      (Inr ?f, snd (rag_graph_invoke demo_env demo_plain_state ?w))"
    using demo_plain_results(3) by (metis prod.collapse)
  note t = graph_frame [of demo_env demo_plain_state ?w
      "[(''context'', JStr ''No context available.'')]" "snd (retrieve demo_env demo_plain_state ?w)"
      ?s ?w "[(''response'', JStr ''An answer.'')]" "snd (generate_answer demo_env ?s ?w)"
      demo_plain_state ?w ?f "snd (rag_graph_invoke demo_env demo_plain_state ?w)"]
  from t 1 have a: "map fst [(''context'', JStr ''No context available.'')] = [''context'']"
    by blast
  from t 2 have b: "map fst [(''response'', JStr ''An answer.'')] = [''response'']"
    by blast
  from t 3 have c: "map_of ?f ''question'' = map_of demo_plain_state ''question''
      \<and> map_of ?f ''pdf_files'' = map_of demo_plain_state ''pdf_files''
      \<and> map_of ?f ''use_s3'' = map_of demo_plain_state ''use_s3''"
    by blast
  from a b c demo_plain_results show ?thesis by blast
qed

end
